theory Spec2Isabelle
  imports Complex_Main
begin

section \<open>Exceptions\<close>

text \<open>
  Python exceptions are values: the class of the exception and its message (what
  \<^verbatim>\<open>str(e)\<close> returns). Every fallible function of the model returns
  \<open>exn + 'a\<close>, with \<open>Inl\<close> for a raised exception. The classes are those of
  \<^verbatim>\<open>adk/error_handling.py\<close>, the built-in classes the modelled code can meet,
  \<^verbatim>\<open>msgspec.ValidationError\<close>, and \<open>OtherException\<close> for whatever else an external
  collaborator (file reader, language-model client) raises.
\<close>

datatype exn_class =
    ContractCopilotError
  | DocumentParsingError
  | ExtractionError
  | RiskAnalysisError
  | RiskAssessmentError
  | RedlineGenerationError
  | NegotiationSummaryError
  | ComplianceAuditError
  | LLMError
  | ToolExecutionError
  | SessionError
  | AttributeError
  | TypeError
  | KeyError
  | IndexError
  | ValueError
  | OverflowError
  | ValidationError
  | OtherException

datatype exn = Exn (exn_class: exn_class) (str: string)

text \<open>\<^verbatim>\<open>isinstance(e, ContractCopilotError)\<close>: the base class and its subclasses.\<close>

definition is_contract_copilot_error :: "exn \<Rightarrow> bool" where
  "is_contract_copilot_error e \<longleftrightarrow>
     exn_class e \<in> set [ContractCopilotError, DocumentParsingError, ExtractionError,
       RiskAnalysisError, RiskAssessmentError, RedlineGenerationError,
       NegotiationSummaryError, ComplianceAuditError, LLMError, ToolExecutionError,
       SessionError]"

section \<open>Floating-point delays\<close>

text \<open>
  The delays of the retry policy are Python floats, that is IEEE 754 doubles. A finite
  double is modelled by the rational number it equals (the sign of zero is dropped); the
  result of an operation is the exact result rounded to the nearest double, ties to the
  even significand, or an infinity when it is too large. NaN does not arise from the
  operations below on finite operands.
\<close>

datatype float_value = Finite rat | PosInf | NegInf

text \<open>The number of binary digits of a positive integer (\<^verbatim>\<open>int.bit_length\<close>).\<close>

function bit_length :: "int \<Rightarrow> nat" where
  "bit_length n = (if n \<le> 0 then 0 else Suc (bit_length (n div 2)))"
  by pat_completeness auto
termination
  by (relation "measure nat") auto

definition pow2 :: "int \<Rightarrow> rat" where
  "pow2 k = (if 0 \<le> k then 2 ^ nat k else 1 / 2 ^ nat (- k))"

text \<open>For positive integers \<open>p\<close> and \<open>d\<close>, the exponent \<open>e\<close> with
  \<open>2\<^sup>e \<le> p / d < 2\<^sup>e\<^sup>+\<^sup>1\<close>: it is the difference of the two bit lengths, or one less.\<close>

definition floor_log2 :: "int \<Rightarrow> int \<Rightarrow> int" where
  "floor_log2 p d =
     (let k = int (bit_length p) - int (bit_length d)
      in if (if 0 \<le> k then p < d * 2 ^ nat k else p * 2 ^ nat (- k) < d) then k - 1 else k)"

text \<open>
  The double nearest to a rational number \<open>x = \<plusminus> p / d\<close>. With \<open>e\<close> the exponent of
  \<open>p / d\<close>, the spacing of the doubles around it is \<open>2\<^sup>q\<close> for \<open>q = e - 52\<close> (a
  significand of 53 bits), but not less than \<open>2\<^sup>-\<^sup>1\<^sup>0\<^sup>7\<^sup>4\<close>. The quotient of \<open>p / d\<close> by
  the spacing, \<open>num / den\<close>, is rounded to the nearest integer \<open>m\<close>, a tie going to the
  even one, and the result is \<open>\<plusminus> m \<sqdot> 2\<^sup>q\<close>. It overflows when it reaches \<open>2\<^sup>1\<^sup>0\<^sup>2\<^sup>4\<close>,
  which is when \<open>q\<close> plus the bit length of \<open>m\<close> exceeds 1024.
\<close>

definition round_to_double :: "rat \<Rightarrow> float_value" where
  "round_to_double x =
     (let p = \<bar>fst (quotient_of x)\<bar>;
          d = snd (quotient_of x)
      in if p = 0 then Finite 0
         else
           let q = max (floor_log2 p d - 52) (- 1074);
               num = (if q < 0 then p * 2 ^ nat (- q) else p);
               den = (if q < 0 then d else d * 2 ^ nat q);
               f = num div den;
               r = num mod den;
               m = (if den < 2 * r \<or> (den = 2 * r \<and> odd f) then f + 1 else f)
           in if 1024 < q + int (bit_length m) then (if 0 < x then PosInf else NegInf)
              else Finite ((if 0 < x then 1 else - 1) * of_int m * pow2 q))"

text \<open>
  The conversion of a Python \<^verbatim>\<open>int\<close> to a float, which \<^verbatim>\<open>float * int\<close> performs on
  its right operand: correctly rounded, and raising when the rounded value does not fit.
\<close>

definition int_to_float :: "int \<Rightarrow> exn + rat" where
  "int_to_float n =
     (case round_to_double (of_int n) of
        Finite v \<Rightarrow> Inr v
      | _ \<Rightarrow> Inl (Exn OverflowError ''int too large to convert to float''))"

text \<open>The product of two finite floats. It does not raise.\<close>

definition float_mul :: "rat \<Rightarrow> rat \<Rightarrow> float_value" where
  "float_mul x y = round_to_double (x * y)"

fun float_less :: "float_value \<Rightarrow> float_value \<Rightarrow> bool" where
  "float_less (Finite x) (Finite y) = (x < y)"
| "float_less (Finite x) PosInf = True"
| "float_less (Finite x) NegInf = False"
| "float_less PosInf y = False"
| "float_less NegInf NegInf = False"
| "float_less NegInf y = True"

text \<open>\<^verbatim>\<open>min(a, b)\<close>: the first argument unless the second is smaller.\<close>

definition float_min :: "float_value \<Rightarrow> float_value \<Rightarrow> float_value" where
  "float_min a b = (if float_less b a then b else a)"

text \<open>
  \<^verbatim>\<open>time.sleep(seconds)\<close> in CPython: the seconds are multiplied by \<open>10\<^sup>9\<close> and
  rounded away from zero to a count of nanoseconds, which raises \<^verbatim>\<open>OverflowError\<close>
  when the count is beyond \<open>\<plusminus> 2\<^sup>6\<^sup>3\<close>, the range of a signed 64-bit integer; then a
  negative count raises \<^verbatim>\<open>ValueError\<close>; otherwise the call returns after the delay.
  \<open>None\<close> is a normal return. (Rounding away from zero changes neither test.)
\<close>

definition time_sleep :: "float_value \<Rightarrow> exn option" where
  "time_sleep seconds =
     (case (case seconds of Finite s \<Rightarrow> float_mul s 1000000000 | other \<Rightarrow> other) of
        Finite ns \<Rightarrow>
          if ns < - 9223372036854775808 \<or> 9223372036854775808 < ns then
            Some (Exn OverflowError ''timestamp too large to convert to C _PyTime_t'')
          else if ns < 0 then
            Some (Exn ValueError ''sleep length must be non-negative'')
          else None
      | _ \<Rightarrow> Some (Exn OverflowError ''timestamp too large to convert to C _PyTime_t''))"

section \<open>Retry with exponential backoff (adk/error\_handling.py)\<close>

text \<open>\<^verbatim>\<open>RetryConfig\<close>. The two delays are floats, given by their values, which are
  taken to be values a double holds; the base is an integer, as annotated.\<close>

record retry_config =
  attempts :: int
  exp_base :: int
  initial_delay :: rat
  max_delay :: rat
  http_status_codes :: "int list"

text \<open>
  \<^verbatim>\<open>calculate_delay\<close>: \<^verbatim>\<open>min(initial_delay * exp_base ** attempt, max_delay)\<close>.
  The power is an exact integer; the multiplication converts it to a float, which can
  raise, and rounds the product. The attempt number is a \<open>nat\<close>: the retry loop passes
  values of \<^verbatim>\<open>range(attempts)\<close>.
\<close>

definition calculate_delay :: "retry_config \<Rightarrow> nat \<Rightarrow> exn + float_value" where
  "calculate_delay cfg attempt =
     (case int_to_float (exp_base cfg ^ attempt) of
        Inl e \<Rightarrow> Inl e
      | Inr pw \<Rightarrow>
          let delay = float_mul (initial_delay cfg) pw
          in Inr (float_min delay (Finite (max_delay cfg))))"

definition GEMINI_RETRY_CONFIG :: retry_config where
  "GEMINI_RETRY_CONFIG =
     \<lparr>attempts = 5, exp_base = 7, initial_delay = 1, max_delay = 60,
      http_status_codes = [429, 500, 503, 504]\<rparr>"

text \<open>
  The loop of \<^verbatim>\<open>retry_with_backoff\<close>'s wrapper, from attempt number \<open>attempt\<close> on.
  The wrapped function is called with the same arguments each time, so what it does can
  only depend on which invocation it is: \<open>func i\<close> is the outcome of invocation number
  \<open>i\<close> (counted from 0). \<open>retryable\<close> is the \<^verbatim>\<open>exceptions\<close> tuple: an exception of
  another class leaves the loop at once. Before a retry the handler computes the delay
  and sleeps; an exception raised by either leaves the wrapper. (The two log calls of the
  handler format a message made of numbers only and cannot raise.) The result is the
  outcome, the number of invocations made and the list of completed sleeps, in order.
  With \<^verbatim>\<open>attempts <= 0\<close> the loop body never runs and \<^verbatim>\<open>raise last_exception\<close>
  raises \<^verbatim>\<open>None\<close>, which Python turns into a \<^verbatim>\<open>TypeError\<close>.
\<close>

function retry_loop ::
  "retry_config \<Rightarrow> (exn \<Rightarrow> bool) \<Rightarrow> (nat \<Rightarrow> exn + 'a) \<Rightarrow> nat \<Rightarrow> exn option
   \<Rightarrow> float_value list \<Rightarrow> (exn + 'a) \<times> nat \<times> float_value list" where
  "retry_loop cfg retryable func attempt last_exception sleeps =
     (if int attempt < attempts cfg then
        (case func attempt of
           Inr v \<Rightarrow> (Inr v, Suc attempt, sleeps)
         | Inl e \<Rightarrow>
             if retryable e then
               (if int attempt < attempts cfg - 1 then
                  (case calculate_delay cfg attempt of
                     Inl raised \<Rightarrow> (Inl raised, Suc attempt, sleeps)
                   | Inr delay \<Rightarrow>
                       (case time_sleep delay of
                          Some raised \<Rightarrow> (Inl raised, Suc attempt, sleeps)
                        | None \<Rightarrow>
                            retry_loop cfg retryable func (Suc attempt) (Some e)
                              (sleeps @ [delay])))
                else retry_loop cfg retryable func (Suc attempt) (Some e) sleeps)
             else (Inl e, Suc attempt, sleeps))
      else
        (case last_exception of
           None \<Rightarrow> (Inl (Exn TypeError ''exceptions must derive from BaseException''),
                    attempt, sleeps)
         | Some e \<Rightarrow> (Inl e, attempt, sleeps)))"
  by pat_completeness auto
termination
  by (relation "measure (\<lambda>(cfg, retryable, func, attempt, last_exception, sleeps).
                  nat (attempts cfg - int attempt))") auto

definition retry_with_backoff ::
  "retry_config \<Rightarrow> (exn \<Rightarrow> bool) \<Rightarrow> (nat \<Rightarrow> exn + 'a)
   \<Rightarrow> (exn + 'a) \<times> nat \<times> float_value list" where
  "retry_with_backoff config exceptions func = retry_loop config exceptions func 0 None []"

section \<open>Data model (adk/models.py)\<close>

text \<open>
  The \<^verbatim>\<open>msgspec\<close> structs. Timestamps, latencies and the fingerprints of a trace
  (which the source computes from the agent name and the success flag alone) are left
  out: no property below reads them. A struct instance is always truthy in Python, so a
  test such as \<^verbatim>\<open>if existing_summary:\<close> on an optional struct is a test for
  \<open>None\<close>; on a list or a string it is a test for emptiness. The values of the fields
  are taken to be values that \<^verbatim>\<open>msgspec.json.encode\<close> accepts (line and page
  numbers within 64 bits, strings that encode as UTF-8), so that writing a struct to a
  row does not raise.
\<close>

record clause =
  clause_id :: string
  clause_type :: string
  clause_text :: string
  start_line :: int
  end_line :: int
  page_number :: int

datatype severity = low | medium | high

record risk_assessment =
  ra_clause_id :: string
  severity :: severity
  risk_type :: string
  explanation :: string
  llm_rationale :: "string option"

record redline_proposal =
  rp_clause_id :: string
  original_text :: string
  proposed_text :: string
  rationale :: string
  diff :: string

record negotiation_summary =
  checklist :: "string list"
  draft_email :: string
  executive_summary :: string
  priority_issues :: "string list"

record contract_metadata =
  parties :: "string list"
  date :: "string option"
  jurisdiction :: "string option"
  contract_type :: "string option"

record agent_trace =
  agent_name :: string
  success :: bool
  error_message :: "string option"

text \<open>
  \<^verbatim>\<open>AuditBundle\<close>. The field \<^verbatim>\<open>negotiation_summary\<close> is annotated as a
  \<^verbatim>\<open>NegotiationSummary\<close>, but a struct is not validated when it is built or
  encoded, the orchestrator passes the session's optional summary, and the audit agent
  tests it for \<^verbatim>\<open>None\<close> before every use: the field of an object in memory or of
  an encoded row can be \<^verbatim>\<open>None\<close>, so it is an option here. The annotation is
  enforced where a row is decoded (\<open>decode_row\<close> below).
\<close>

record audit_bundle =
  ab_session_id :: string
  ab_original_contract :: string
  ab_extracted_clauses :: "clause list"
  ab_risk_assessments :: "risk_assessment list"
  ab_redline_proposals :: "redline_proposal list"
  ab_negotiation_summary :: "negotiation_summary option"
  ab_agent_traces :: "agent_trace list"
  disclaimer :: string

text \<open>
  \<^verbatim>\<open>ContractSession\<close>: one row of the \<^verbatim>\<open>sessions\<close> table. The six stage
  outputs (slots) are \<open>normalized_text\<close> with \<open>contract_metadata\<close> (stage 0),
  \<open>extracted_clauses\<close> (1), \<open>risk_assessments\<close> (2), \<open>redline_proposals\<close> (3),
  \<open>negotiation_summary\<close> (4) and \<open>audit_bundle\<close> (5).
\<close>

record contract_session =
  session_id :: string
  user_id :: string
  filename :: string
  contract_metadata :: contract_metadata
  normalized_text :: string
  extracted_clauses :: "clause list"
  risk_assessments :: "risk_assessment list"
  redline_proposals :: "redline_proposal list"
  negotiation_summary :: "negotiation_summary option"
  audit_bundle :: "audit_bundle option"

section \<open>The session store (memory/session\_service.py)\<close>

text \<open>
  The SQLite database: the \<^verbatim>\<open>sessions\<close> table is a list of rows with
  \<open>session_id\<close> as primary key, the \<^verbatim>\<open>state\<close> table maps
  \<open>(session_id, key)\<close> to a JSON value, the \<^verbatim>\<open>events\<close> table is an append-only
  list of \<open>(session_id, event_type)\<close>. A row holds what was encoded into it. The
  database itself does not fail (no I/O error): an operation fails only where the source
  raises by its own logic, SQLite rejects a duplicate primary key, or a stored value does
  not decode.
\<close>

datatype state_value =
    ClausesValue "clause list"
  | RisksValue "risk_assessment list"
  | ProposalsValue "redline_proposal list"
  | SummaryValue negotiation_summary
  | BundleValue audit_bundle
  | StringsValue "string list"
  | StringValue string

record database =
  sessions :: "contract_session list"
  state :: "string \<times> string \<rightharpoonup> state_value"
  events :: "(string \<times> string) list"

text \<open>\<^verbatim>\<open>_log_event\<close>: one more row in the \<^verbatim>\<open>events\<close> table.\<close>

definition log_event :: "database \<Rightarrow> string \<Rightarrow> string \<Rightarrow> database" where
  "log_event db sid event_type = db\<lparr>events := events db @ [(sid, event_type)]\<rparr>"

text \<open>\<^verbatim>\<open>SELECT ... FROM sessions WHERE session_id = ?\<close> and \<^verbatim>\<open>fetchone\<close>.\<close>

definition find_row :: "database \<Rightarrow> string \<Rightarrow> contract_session option" where
  "find_row db sid = find (\<lambda>row. session_id row = sid) (sessions db)"

text \<open>
  The deserialisation of a row in \<^verbatim>\<open>get_session\<close>:
  \<^verbatim>\<open>msgspec.json.decode(..., type=...)\<close> validates each column against its struct.
  The columns are typed here, so every value decodes to itself, with one exception: an
  audit bundle encoded with \<^verbatim>\<open>negotiation_summary\<close> \<^verbatim>\<open>null\<close> is rejected, the
  field of \<^verbatim>\<open>AuditBundle\<close> not being optional.
\<close>

definition decode_row :: "contract_session \<Rightarrow> exn + contract_session" where
  "decode_row row =
     (case audit_bundle row of
        None \<Rightarrow> Inr row
      | Some bundle \<Rightarrow>
          if ab_negotiation_summary bundle = None then
            Inl (Exn ValidationError ''Expected `object`, got `null` - at `$.negotiation_summary`'')
          else Inr row)"

text \<open>\<^verbatim>\<open>get_session\<close>: \<^verbatim>\<open>None\<close> when there is no row with this key, the decoded
  row otherwise; whatever is raised on the way is wrapped in a \<^verbatim>\<open>SessionError\<close>.\<close>

definition get_session :: "database \<Rightarrow> string \<Rightarrow> exn + contract_session option" where
  "get_session db sid =
     (case find_row db sid of
        None \<Rightarrow> Inr None
      | Some row \<Rightarrow>
          (case decode_row row of
             Inl e \<Rightarrow> Inl (Exn SessionError (''Session retrieval failed: '' @ str e))
           | Inr session \<Rightarrow> Inr (Some session)))"

text \<open>
  \<^verbatim>\<open>create_session\<close>: \<^verbatim>\<open>INSERT INTO sessions\<close>. A second row with the same
  primary key makes SQLite raise an integrity error, which the source's
  \<^verbatim>\<open>except Exception\<close> turns into a \<^verbatim>\<open>SessionError\<close>. The new row has the
  column defaults in every slot after the seed.
\<close>

definition create_session ::
  "database \<Rightarrow> string \<Rightarrow> string \<Rightarrow> string \<Rightarrow> contract_metadata \<Rightarrow> string
   \<Rightarrow> exn + (contract_session \<times> database)" where
  "create_session db sid uid fname meta text =
     (let session = \<lparr>session_id = sid, user_id = uid, filename = fname,
                      contract_metadata = meta, normalized_text = text,
                      extracted_clauses = [], risk_assessments = [], redline_proposals = [],
                      negotiation_summary = None, audit_bundle = None\<rparr>
      in if find_row db sid \<noteq> None
         then Inl (Exn SessionError (''Session creation failed: '' @
                     ''UNIQUE constraint failed: sessions.session_id''))
         else Inr (session,
                   log_event (db\<lparr>sessions := sessions db @ [session]\<rparr>) sid ''session_created''))"

text \<open>
  \<^verbatim>\<open>update_session\<close>: \<^verbatim>\<open>UPDATE sessions SET ... WHERE session_id = ?\<close> rewrites
  every column of the matching row from the object it is given (no row: no change), then
  logs the event. Encoding does not validate.
\<close>

definition update_session :: "database \<Rightarrow> contract_session \<Rightarrow> database" where
  "update_session db session =
     log_event
       (db\<lparr>sessions := map (\<lambda>row. if session_id row = session_id session then session else row)
                            (sessions db)\<rparr>)
       (session_id session) ''session_updated''"

text \<open>\<^verbatim>\<open>set_state\<close>: \<^verbatim>\<open>INSERT OR REPLACE INTO state\<close>.\<close>

definition set_state :: "database \<Rightarrow> string \<Rightarrow> string \<Rightarrow> state_value \<Rightarrow> database" where
  "set_state db sid key v = db\<lparr>state := (state db)((sid, key) \<mapsto> v)\<rparr>"

definition get_state :: "database \<Rightarrow> string \<Rightarrow> string \<Rightarrow> state_value option" where
  "get_state db sid key = state db (sid, key)"


section \<open>The memory bank (memory/memory\_bank.py)\<close>

text \<open>
  Every method looks the session up, raises \<^verbatim>\<open>SessionError\<close> when there is none, and
  wraps whatever was raised in a second \<^verbatim>\<open>SessionError\<close> carrying the method's own
  prefix. A \<^verbatim>\<open>store_*\<close> method overwrites the slot in the session object, writes the
  whole row back and mirrors the value in the \<^verbatim>\<open>state\<close> table; it returns the new
  database. The log calls of the store and of the memory bank pass a finished message
  and no argument to format it with, so they return.
\<close>

text \<open>The lookup every method starts with, with the method's prefix for the message.\<close>

definition session_or_raise :: "database \<Rightarrow> string \<Rightarrow> string \<Rightarrow> exn + contract_session" where
  "session_or_raise db sid prefix =
     (case get_session db sid of
        Inl e \<Rightarrow> Inl (Exn SessionError (prefix @ str e))
      | Inr None \<Rightarrow> Inl (Exn SessionError (prefix @ ''Session not found: '' @ sid))
      | Inr (Some session) \<Rightarrow> Inr session)"

definition store_clauses :: "database \<Rightarrow> string \<Rightarrow> clause list \<Rightarrow> exn + database" where
  "store_clauses db sid clauses =
     (case session_or_raise db sid ''Failed to store clauses: '' of
        Inl e \<Rightarrow> Inl e
      | Inr session \<Rightarrow>
          Inr (set_state (update_session db (session\<lparr>extracted_clauses := clauses\<rparr>))
                 sid ''extracted_clauses'' (ClausesValue clauses)))"

definition get_clauses :: "database \<Rightarrow> string \<Rightarrow> exn + clause list" where
  "get_clauses db sid =
     map_sum id extracted_clauses (session_or_raise db sid ''Failed to retrieve clauses: '')"

definition store_risk_assessments ::
  "database \<Rightarrow> string \<Rightarrow> risk_assessment list \<Rightarrow> exn + database" where
  "store_risk_assessments db sid assessments =
     (case session_or_raise db sid ''Failed to store risk assessments: '' of
        Inl e \<Rightarrow> Inl e
      | Inr session \<Rightarrow>
          Inr (set_state (update_session db (session\<lparr>risk_assessments := assessments\<rparr>))
                 sid ''risk_assessments'' (RisksValue assessments)))"

definition get_risk_assessments :: "database \<Rightarrow> string \<Rightarrow> exn + risk_assessment list" where
  "get_risk_assessments db sid =
     map_sum id risk_assessments
       (session_or_raise db sid ''Failed to retrieve risk assessments: '')"

definition store_redline_proposals ::
  "database \<Rightarrow> string \<Rightarrow> redline_proposal list \<Rightarrow> exn + database" where
  "store_redline_proposals db sid proposals =
     (case session_or_raise db sid ''Failed to store redline proposals: '' of
        Inl e \<Rightarrow> Inl e
      | Inr session \<Rightarrow>
          Inr (set_state (update_session db (session\<lparr>redline_proposals := proposals\<rparr>))
                 sid ''redline_proposals'' (ProposalsValue proposals)))"

definition get_redline_proposals :: "database \<Rightarrow> string \<Rightarrow> exn + redline_proposal list" where
  "get_redline_proposals db sid =
     map_sum id redline_proposals
       (session_or_raise db sid ''Failed to retrieve redline proposals: '')"

definition store_negotiation_summary ::
  "database \<Rightarrow> string \<Rightarrow> negotiation_summary \<Rightarrow> exn + database" where
  "store_negotiation_summary db sid summary =
     (case session_or_raise db sid ''Failed to store negotiation summary: '' of
        Inl e \<Rightarrow> Inl e
      | Inr session \<Rightarrow>
          Inr (set_state (update_session db (session\<lparr>negotiation_summary := Some summary\<rparr>))
                 sid ''negotiation_summary'' (SummaryValue summary)))"

definition get_negotiation_summary ::
  "database \<Rightarrow> string \<Rightarrow> exn + negotiation_summary option" where
  "get_negotiation_summary db sid =
     map_sum id negotiation_summary
       (session_or_raise db sid ''Failed to retrieve negotiation summary: '')"

definition store_audit_bundle :: "database \<Rightarrow> string \<Rightarrow> audit_bundle \<Rightarrow> exn + database" where
  "store_audit_bundle db sid bundle =
     (case session_or_raise db sid ''Failed to store audit bundle: '' of
        Inl e \<Rightarrow> Inl e
      | Inr session \<Rightarrow>
          Inr (set_state (update_session db (session\<lparr>audit_bundle := Some bundle\<rparr>))
                 sid ''audit_bundle'' (BundleValue bundle)))"

definition get_audit_bundle :: "database \<Rightarrow> string \<Rightarrow> exn + audit_bundle option" where
  "get_audit_bundle db sid =
     map_sum id audit_bundle (session_or_raise db sid ''Failed to retrieve audit bundle: '')"

definition get_normalized_text :: "database \<Rightarrow> string \<Rightarrow> exn + string" where
  "get_normalized_text db sid =
     map_sum id normalized_text
       (session_or_raise db sid ''Failed to retrieve normalized text: '')"

definition get_session_state :: "database \<Rightarrow> string \<Rightarrow> exn + contract_session" where
  "get_session_state db sid = session_or_raise db sid ''Failed to retrieve session state: ''"

definition set_custom_state :: "database \<Rightarrow> string \<Rightarrow> string \<Rightarrow> state_value \<Rightarrow> database" where
  "set_custom_state db sid key v = set_state db sid key v"

definition get_custom_state :: "database \<Rightarrow> string \<Rightarrow> string \<Rightarrow> state_value option" where
  "get_custom_state db sid key = get_state db sid key"

section \<open>External collaborators\<close>

text \<open>
  What the pipeline calls and does not compute itself: the UUID generator, the file
  reader and parser behind the ingestion agent, the language-model calls of the other
  agents, the two renderings of an audit bundle, and the logger. Each is a function of
  its arguments that returns a value or raises. \<open>redline_text clause assessment i\<close> is
  the outcome of invocation number \<open>i\<close> of the retried method that produces the proposed
  text and the rationale for one clause (\<^verbatim>\<open>_generate_with_template\<close> or
  \<^verbatim>\<open>_generate_without_template\<close>, whichever the template lookup selects).

  \<open>logger_call level message keys\<close> is a call \<^verbatim>\<open>logger.<level>(message, **kwargs)\<close>
  of loguru with keyword arguments named \<open>keys\<close>: \<open>None\<close> when it returns,
  \<open>Some e\<close> when it raises \<open>e\<close>. With a handler installed for the level (which
  \<^verbatim>\<open>setup_logging\<close> does) such a call formats the message with
  \<^verbatim>\<open>message.format(**kwargs)\<close>, and that raises \<^verbatim>\<open>KeyError\<close>,
  \<^verbatim>\<open>IndexError\<close> or \<^verbatim>\<open>ValueError\<close> when the message has a replacement field
  that the arguments do not supply or a brace that is not matched. The call is modelled
  wherever the message embeds text of the run (a session id, a clause id, the text of
  an exception). A log call whose message has no such text, or which passes no keyword
  argument (the message is then not formatted), returns and is left out.
\<close>

record file_input =
  file_path :: "string option"
  file_bytes :: "string option"
  upload_filename :: "string option"

record ingestion_output =
  normalized_contract :: string
  metadata :: contract_metadata
  page_count :: int

datatype log_level = LogDebug | LogInfo | LogWarning | LogError

record collaborators =
  uuid4 :: string
  process_file :: "file_input \<Rightarrow> string \<Rightarrow> exn + ingestion_output"
  extract_clauses :: "string \<Rightarrow> string \<Rightarrow> exn + clause list"
  assess_risks :: "clause list \<Rightarrow> string \<Rightarrow> exn + risk_assessment list"
  redline_text :: "clause \<Rightarrow> risk_assessment \<Rightarrow> nat \<Rightarrow> exn + string \<times> string"
  generate_diff :: "string \<Rightarrow> string \<Rightarrow> string"
  generate_summary ::
    "clause list \<Rightarrow> risk_assessment list \<Rightarrow> redline_proposal list \<Rightarrow> string
     \<Rightarrow> contract_metadata option \<Rightarrow> exn + negotiation_summary"
  disclaimer_text :: "string \<Rightarrow> string"
  render_json :: "audit_bundle \<Rightarrow> exn + string"
  render_markdown :: "audit_bundle \<Rightarrow> contract_metadata option \<Rightarrow> exn + string"
  logger_call :: "log_level \<Rightarrow> string \<Rightarrow> string list \<Rightarrow> exn option"

section \<open>Error conversion (adk/error\_handling.py)\<close>

text \<open>
  The decorator \<^verbatim>\<open>handle_errors(error_type)\<close> around a function named \<open>func_name\<close>:
  a \<^verbatim>\<open>ContractCopilotError\<close> passes unchanged, any other exception is replaced by
  one of class \<open>error_type\<close>. (Its own log call has a message without run text. The
  decorator \<^verbatim>\<open>log_agent_execution\<close>, which is applied outside it, logs such messages
  too and re-raises.)
\<close>

definition handle_errors :: "exn_class \<Rightarrow> string \<Rightarrow> exn + 'a \<Rightarrow> exn + 'a" where
  "handle_errors error_type func_name outcome =
     (case outcome of
        Inr v \<Rightarrow> Inr v
      | Inl e \<Rightarrow>
          if is_contract_copilot_error e then Inl e
          else Inl (Exn error_type (''Error in '' @ func_name @ '': '' @ str e)))"

section \<open>The redline agent (adk/agents/redline\_suggestion\_agent.py)\<close>

text \<open>A dict comprehension \<^verbatim>\<open>{key(x): x for x in xs}\<close>: a later element replaces an
  earlier one with the same key.\<close>

definition dict_of :: "('a \<Rightarrow> 'k) \<Rightarrow> 'a list \<Rightarrow> ('k \<rightharpoonup> 'a)" where
  "dict_of key xs = fold (\<lambda>x m. m(key x \<mapsto> x)) xs Map.empty"

text \<open>
  \<^verbatim>\<open>_generate_redline_for_clause\<close>: a debug message that embeds the clause id is
  logged with the keyword arguments \<^verbatim>\<open>clause_type\<close> and \<^verbatim>\<open>severity\<close>; the text and
  the rationale come from the method decorated with
  \<^verbatim>\<open>retry_with_backoff(GEMINI_RETRY_CONFIG, (Exception,))\<close>; the proposal carries the
  clause's id and text. (The template lookup is a search in a table in memory.)
\<close>

definition generate_redline_for_clause ::
  "collaborators \<Rightarrow> clause \<Rightarrow> risk_assessment \<Rightarrow> exn + redline_proposal" where
  "generate_redline_for_clause env c ra =
     (case logger_call env LogDebug (''Generating redline for clause '' @ clause_id c)
             [''clause_type'', ''severity''] of
        Some raised \<Rightarrow> Inl raised
      | None \<Rightarrow>
          (case fst (retry_with_backoff GEMINI_RETRY_CONFIG (\<lambda>e. True) (redline_text env c ra)) of
             Inl e \<Rightarrow> Inl e
           | Inr (proposed, why) \<Rightarrow>
               Inr \<lparr>rp_clause_id = clause_id c, original_text = clause_text c,
                    proposed_text = proposed, rationale = why,
                    diff = generate_diff env (clause_text c) proposed\<rparr>))"

text \<open>
  The loop over the risky assessments. An assessment whose clause is not in the map is
  skipped. When the generation for a clause raises, the handler logs an error message
  that embeds the clause id and the text of the exception, with the keyword argument
  \<^verbatim>\<open>clause_id\<close>, and the loop goes on to the next assessment
  (\<^verbatim>\<open># Continue with other clauses\<close>); an exception raised by that log call leaves
  the loop and the method.
\<close>

fun redline_loop ::
  "collaborators \<Rightarrow> (string \<rightharpoonup> clause) \<Rightarrow> risk_assessment list \<Rightarrow> redline_proposal list
   \<Rightarrow> exn + redline_proposal list" where
  "redline_loop env clause_map [] proposals = Inr proposals"
| "redline_loop env clause_map (ra # rest) proposals =
     (case clause_map (ra_clause_id ra) of
        None \<Rightarrow> redline_loop env clause_map rest proposals
      | Some c \<Rightarrow>
          (case generate_redline_for_clause env c ra of
             Inr redline \<Rightarrow> redline_loop env clause_map rest (proposals @ [redline])
           | Inl e \<Rightarrow>
               (case logger_call env LogError
                       (''Failed to generate redline for clause '' @ clause_id c @ '': '' @ str e)
                       [''clause_id''] of
                  Some raised \<Rightarrow> Inl raised
                | None \<Rightarrow> redline_loop env clause_map rest proposals)))"

record redline_output =
  out_redline_proposals :: "redline_proposal list"
  out_proposal_count :: nat
  out_high_risk_redlines :: "redline_proposal list"
  out_medium_risk_redlines :: "redline_proposal list"

definition redlines_of_severity ::
  "(string \<rightharpoonup> risk_assessment) \<Rightarrow> severity \<Rightarrow> redline_proposal list \<Rightarrow> redline_proposal list" where
  "redlines_of_severity risk_map sev proposals =
     filter (\<lambda>r. case risk_map (rp_clause_id r) of None \<Rightarrow> False | Some ra \<Rightarrow> severity ra = sev)
       proposals"

text \<open>The body of \<^verbatim>\<open>generate_redlines\<close>. The \<^verbatim>\<open>redline_summary\<close> entry of the
  result holds the lengths of the three lists and is left out.\<close>

definition generate_redlines_body ::
  "collaborators \<Rightarrow> clause list \<Rightarrow> risk_assessment list \<Rightarrow> string \<Rightarrow> exn + redline_output" where
  "generate_redlines_body env clauses assessments sid =
     (if clauses = [] then
        Inl (Exn RedlineGenerationError ''No clauses provided for redline generation'')
      else if assessments = [] then
        Inl (Exn RedlineGenerationError ''No risk assessments provided for redline generation'')
      else
        let clause_map = dict_of clause_id clauses;
            risk_map = dict_of ra_clause_id assessments;
            risky_assessments = filter (\<lambda>r. severity r = high \<or> severity r = medium) assessments
        in if risky_assessments = [] then
             Inr \<lparr>out_redline_proposals = [], out_proposal_count = 0,
                  out_high_risk_redlines = [], out_medium_risk_redlines = []\<rparr>
           else
             (case redline_loop env clause_map risky_assessments [] of
                Inl e \<Rightarrow> Inl e
              | Inr proposals \<Rightarrow>
                  Inr \<lparr>out_redline_proposals = proposals,
                       out_proposal_count = length proposals,
                       out_high_risk_redlines = redlines_of_severity risk_map high proposals,
                       out_medium_risk_redlines =
                         redlines_of_severity risk_map medium proposals\<rparr>))"

text \<open>\<^verbatim>\<open>generate_redlines\<close>, as decorated with
  \<^verbatim>\<open>handle_errors(RedlineGenerationError)\<close>.\<close>

definition generate_redlines ::
  "collaborators \<Rightarrow> clause list \<Rightarrow> risk_assessment list \<Rightarrow> string \<Rightarrow> exn + redline_output" where
  "generate_redlines env clauses assessments sid =
     handle_errors RedlineGenerationError ''generate_redlines''
       (generate_redlines_body env clauses assessments sid)"

section \<open>The audit agent (adk/agents/compliance\_audit\_agent.py)\<close>

text \<open>
  \<^verbatim>\<open>_export_to_json\<close> and \<^verbatim>\<open>_export_to_markdown\<close> turn whatever the rendering
  raises into a \<^verbatim>\<open>ComplianceAuditError\<close>.
\<close>

definition export_to_json :: "collaborators \<Rightarrow> audit_bundle \<Rightarrow> exn + string" where
  "export_to_json env bundle =
     (case render_json env bundle of
        Inl e \<Rightarrow> Inl (Exn ComplianceAuditError (''JSON export failed: '' @ str e))
      | Inr json_export \<Rightarrow> Inr json_export)"

definition export_to_markdown ::
  "collaborators \<Rightarrow> audit_bundle \<Rightarrow> contract_metadata option \<Rightarrow> exn + string" where
  "export_to_markdown env bundle meta =
     (case render_markdown env bundle meta of
        Inl e \<Rightarrow> Inl (Exn ComplianceAuditError (''Markdown export failed: '' @ str e))
      | Inr markdown_export \<Rightarrow> Inr markdown_export)"

text \<open>
  \<^verbatim>\<open>compile_audit_bundle\<close>, as decorated with \<^verbatim>\<open>handle_errors(ComplianceAuditError)\<close>,
  builds the bundle from its arguments and renders it twice. The bundle holds the trace
  list it is handed: the list object itself, not a copy (see \<open>audit_compilation_try\<close>).
\<close>

definition compile_audit_bundle ::
  "collaborators \<Rightarrow> string \<Rightarrow> string \<Rightarrow> clause list \<Rightarrow> risk_assessment list
   \<Rightarrow> redline_proposal list \<Rightarrow> negotiation_summary option \<Rightarrow> agent_trace list
   \<Rightarrow> contract_metadata option \<Rightarrow> exn + audit_bundle \<times> string \<times> string" where
  "compile_audit_bundle env sid original cs ras rps summary traces meta =
     handle_errors ComplianceAuditError ''compile_audit_bundle''
       (let bundle = \<lparr>ab_session_id = sid, ab_original_contract = original,
                       ab_extracted_clauses = cs, ab_risk_assessments = ras,
                       ab_redline_proposals = rps, ab_negotiation_summary = summary,
                       ab_agent_traces = traces, disclaimer = disclaimer_text env sid\<rparr>
        in case export_to_json env bundle of
             Inl e \<Rightarrow> Inl e
           | Inr json_export \<Rightarrow>
               (case export_to_markdown env bundle meta of
                  Inl e \<Rightarrow> Inl e
                | Inr markdown_export \<Rightarrow> Inr (bundle, json_export, markdown_export)))"

section \<open>The session manager (memory/session\_manager.py)\<close>

definition create_new_session ::
  "collaborators \<Rightarrow> database \<Rightarrow> string \<Rightarrow> contract_metadata \<Rightarrow> string \<Rightarrow> string
   \<Rightarrow> string option \<Rightarrow> exn + ((string \<times> contract_session) \<times> database)" where
  "create_new_session env db uid meta text fname sid_opt =
     (let sid = (case sid_opt of None \<Rightarrow> uuid4 env | Some given \<Rightarrow> given)
      in case create_session db sid uid fname meta text of
           Inl e \<Rightarrow> Inl e
         | Inr (session, db') \<Rightarrow> Inr ((sid, session), db'))"

section \<open>The orchestrator (adk/orchestrator.py)\<close>

text \<open>
  The orchestrator's state: the degradation flag, the in-memory trace list, the memory
  bank, and a log of the calls made to the stage executors (what a test double would
  record), so that "the executor was not invoked" can be stated. The audit executor's
  entry keeps the trace list it was handed. Observability (the spans, the metrics and
  their export to files after the last stage) keeps records of its own, reads none of
  these and, like the database, is taken not to fail; it is left out, and with
  \<^verbatim>\<open>enable_observability=False\<close> none of it runs. Of the log calls, those whose
  message embeds text of the run and that pass keyword arguments are modelled
  (\<open>logger_call\<close>).
\<close>

datatype agent_call =
    ProcessFileCall
  | ExtractClausesCall
  | AssessRisksCall
  | GenerateRedlinesCall
  | GenerateSummaryCall
  | CompileAuditBundleCall "agent_trace list"

record orchestrator =
  enable_graceful_degradation :: bool
  agent_traces :: "agent_trace list"
  memory_bank :: database
  invocations :: "agent_call list"

definition invoke :: "orchestrator \<Rightarrow> agent_call \<Rightarrow> orchestrator" where
  "invoke orch call = orch\<lparr>invocations := invocations orch @ [call]\<rparr>"

text \<open>\<^verbatim>\<open>_record_trace\<close>: append one record to the in-memory list.\<close>

definition record_trace :: "orchestrator \<Rightarrow> string \<Rightarrow> bool \<Rightarrow> string option \<Rightarrow> orchestrator" where
  "record_trace orch name ok err =
     orch\<lparr>agent_traces := agent_traces orch @
             [\<lparr>agent_name = name, success = ok, error_message = err\<rparr>]\<rparr>"

text \<open>
  The dictionaries the stage methods return, as records; a key that only some of the
  return statements set is an option. Keys of an agent's result that the orchestrator
  never reads (statistics, the original text) are left out.
\<close>

record ingestion_result =
  ir_session_id :: string
  ir_normalized_contract :: string
  ir_metadata :: contract_metadata
  ir_page_count :: int
  ir_status :: "string option"

record extraction_result =
  er_clauses :: "clause list"
  er_clause_count :: nat
  er_status :: "string option"
  er_error :: "string option"

record risk_result =
  rk_risk_assessments :: "risk_assessment list"
  rk_high_risk_count :: "nat option"
  rk_status :: "string option"
  rk_warning :: "string option"
  rk_error :: "string option"

record redline_result =
  rl_redline_proposals :: "redline_proposal list"
  rl_proposal_count :: nat
  rl_high_risk_redlines :: "redline_proposal list option"
  rl_medium_risk_redlines :: "redline_proposal list option"
  rl_status :: "string option"
  rl_warning :: "string option"
  rl_error :: "string option"

record summary_result =
  sm_negotiation_summary :: "negotiation_summary option"
  sm_status :: "string option"
  sm_warning :: "string option"
  sm_error :: "string option"

record audit_result =
  au_audit_bundle :: "audit_bundle option"
  au_json_export :: "string option"
  au_markdown_export :: "string option"
  au_status :: "string option"
  au_error :: "string option"

subsection \<open>Stage 0: ingestion\<close>

text \<open>
  \<^verbatim>\<open>existing_session.contract_metadata.page_count\<close>: \<^verbatim>\<open>ContractMetadata\<close> has the
  fields \<^verbatim>\<open>parties\<close>, \<^verbatim>\<open>date\<close>, \<^verbatim>\<open>jurisdiction\<close> and \<^verbatim>\<open>contract_type\<close>
  and no other, so reading this attribute raises.
\<close>

definition page_count_attribute :: "contract_metadata \<Rightarrow> exn + int" where
  "page_count_attribute meta =
     Inl (Exn AttributeError ''ContractMetadata object has no attribute page_count'')"

text \<open>
  The inner \<^verbatim>\<open>try\<close> of \<^verbatim>\<open>_run_ingestion\<close> ("check if session already exists with
  data"). \<open>Some r\<close>: the method returns \<open>r\<close> from inside it. \<open>None\<close>: control falls
  through to the file processing, either because the condition is false or because
  something raised (the lookup, the log call or the attribute) and
  \<^verbatim>\<open>except Exception: pass\<close> swallowed it. The dictionary of the early return is
  built entry by entry, so the attribute is read before anything is returned. The
  metadata of a stored session is a struct, hence truthy.
\<close>

definition resume_ingestion ::
  "collaborators \<Rightarrow> database \<Rightarrow> string \<Rightarrow> ingestion_result option" where
  "resume_ingestion env db sid =
     (case get_session_state db sid of
        Inl e \<Rightarrow> None
      | Inr existing_session \<Rightarrow>
          if normalized_text existing_session \<noteq> [] then
            (case logger_call env LogInfo
                    (''Resuming session '' @ sid @ '': Skipping ingestion'') [''session_id''] of
               Some raised \<Rightarrow> None
             | None \<Rightarrow>
                 (case page_count_attribute (contract_metadata existing_session) of
                    Inl e \<Rightarrow> None
                  | Inr pages \<Rightarrow>
                      Some \<lparr>ir_session_id = sid,
                            ir_normalized_contract = normalized_text existing_session,
                            ir_metadata = contract_metadata existing_session,
                            ir_page_count = pages,
                            ir_status = Some ''skipped_already_exists''\<rparr>))
          else None)"

text \<open>\<^verbatim>\<open>filename or "Unknown Contract"\<close>.\<close>

definition filename_or_unknown :: "string option \<Rightarrow> string" where
  "filename_or_unknown name =
     (case name of None \<Rightarrow> ''Unknown Contract''
      | Some n \<Rightarrow> if n = [] then ''Unknown Contract'' else n)"

text \<open>The outer \<^verbatim>\<open>try\<close> block of \<^verbatim>\<open>_run_ingestion\<close>.\<close>

definition ingestion_try ::
  "collaborators \<Rightarrow> orchestrator \<Rightarrow> file_input \<Rightarrow> string option
   \<Rightarrow> (exn + ingestion_result) \<times> orchestrator" where
  "ingestion_try env orch file sid_opt =
     (let sid = (case sid_opt of None \<Rightarrow> uuid4 env | Some given \<Rightarrow> given)
      in case (if sid \<noteq> [] then resume_ingestion env (memory_bank orch) sid else None) of
           Some skipped \<Rightarrow> (Inr skipped, orch)
         | None \<Rightarrow>
             let orch1 = invoke orch ProcessFileCall
             in case process_file env file sid of
                  Inl e \<Rightarrow> (Inl e, orch1)
                | Inr result \<Rightarrow>
                    (case create_new_session env (memory_bank orch1) ''default_user''
                            (metadata result) (normalized_contract result)
                            (filename_or_unknown (upload_filename file)) (Some sid) of
                       Inl e \<Rightarrow> (Inl e, orch1)
                     | Inr (created, db') \<Rightarrow>
                         (Inr \<lparr>ir_session_id = sid,
                               ir_normalized_contract = normalized_contract result,
                               ir_metadata = metadata result,
                               ir_page_count = page_count result,
                               ir_status = None\<rparr>,
                          record_trace (orch1\<lparr>memory_bank := db'\<rparr>) ''IngestionAgent'' True None)))"

text \<open>\<^verbatim>\<open>_run_ingestion\<close>: the handler records the failed trace and always raises. Its
  log call passes no keyword argument.\<close>

definition run_ingestion ::
  "collaborators \<Rightarrow> orchestrator \<Rightarrow> file_input \<Rightarrow> string option
   \<Rightarrow> (exn + ingestion_result) \<times> orchestrator" where
  "run_ingestion env orch file sid_opt =
     (case ingestion_try env orch file sid_opt of
        (Inr result, orch') \<Rightarrow> (Inr result, orch')
      | (Inl e, orch') \<Rightarrow>
          (Inl (Exn DocumentParsingError (''Ingestion failed: '' @ str e)),
           record_trace orch' ''IngestionAgent'' False (Some (str e))))"

subsection \<open>Stage 1: clause extraction\<close>

definition extraction_try ::
  "collaborators \<Rightarrow> orchestrator \<Rightarrow> string \<Rightarrow> (exn + extraction_result) \<times> orchestrator" where
  "extraction_try env orch sid =
     (case get_normalized_text (memory_bank orch) sid of
        Inl e \<Rightarrow> (Inl e, orch)
      | Inr text \<Rightarrow>
          (case get_clauses (memory_bank orch) sid of
             Inl e \<Rightarrow> (Inl e, orch)
           | Inr existing_clauses \<Rightarrow>
               if existing_clauses \<noteq> [] then
                 (case logger_call env LogInfo
                         (''Resuming session '' @ sid @ '': Skipping extraction'')
                         [''session_id''] of
                    Some raised \<Rightarrow> (Inl raised, orch)
                  | None \<Rightarrow>
                      (Inr \<lparr>er_clauses = existing_clauses,
                            er_clause_count = length existing_clauses,
                            er_status = Some ''skipped_already_exists'', er_error = None\<rparr>,
                       orch))
               else
                 let orch1 = invoke orch ExtractClausesCall
                 in case extract_clauses env text sid of
                      Inl e \<Rightarrow> (Inl e, orch1)
                    | Inr found \<Rightarrow>
                        (case store_clauses (memory_bank orch1) sid found of
                           Inl e \<Rightarrow> (Inl e, orch1)
                         | Inr db' \<Rightarrow>
                             (Inr \<lparr>er_clauses = found, er_clause_count = length found,
                                   er_status = None, er_error = None\<rparr>,
                              record_trace (orch1\<lparr>memory_bank := db'\<rparr>)
                                ''ClauseExtractionAgent'' True None))))"

text \<open>
  \<^verbatim>\<open>_run_extraction\<close>. The \<^verbatim>\<open>try\<close> block above logs a message that embeds the
  session id before it returns the stored clauses; an exception raised by that log call
  goes to the handler like any other. The handler records the failed trace, logs the
  failure (the message embeds the text of the exception and is formatted with the
  keyword argument \<^verbatim>\<open>session_id\<close>; an exception raised by this log call leaves the
  method), and then raises or returns the default according to the degradation flag.
  The four stages after it have the same shape.
\<close>

definition run_extraction ::
  "collaborators \<Rightarrow> orchestrator \<Rightarrow> string \<Rightarrow> (exn + extraction_result) \<times> orchestrator" where
  "run_extraction env orch sid =
     (case extraction_try env orch sid of
        (Inr result, orch') \<Rightarrow> (Inr result, orch')
      | (Inl e, orch') \<Rightarrow>
          let orch'' = record_trace orch' ''ClauseExtractionAgent'' False (Some (str e))
          in case logger_call env LogError (''ClauseExtractionAgent failed: '' @ str e)
                    [''session_id''] of
               Some raised \<Rightarrow> (Inl raised, orch'')
             | None \<Rightarrow>
                 if \<not> enable_graceful_degradation orch'' then
                   (Inl (Exn ExtractionError (''Clause extraction failed: '' @ str e)), orch'')
                 else
                   (Inr \<lparr>er_clauses = [], er_clause_count = 0, er_status = None,
                         er_error = Some (str e)\<rparr>, orch''))"

subsection \<open>Stage 2: risk scoring\<close>

definition risk_scoring_try ::
  "collaborators \<Rightarrow> orchestrator \<Rightarrow> string \<Rightarrow> (exn + risk_result) \<times> orchestrator" where
  "risk_scoring_try env orch sid =
     (case get_clauses (memory_bank orch) sid of
        Inl e \<Rightarrow> (Inl e, orch)
      | Inr clauses \<Rightarrow>
          if clauses = [] then
            (Inr \<lparr>rk_risk_assessments = [], rk_high_risk_count = Some 0, rk_status = None,
                  rk_warning = Some ''No clauses to score'', rk_error = None\<rparr>, orch)
          else
            (case get_risk_assessments (memory_bank orch) sid of
               Inl e \<Rightarrow> (Inl e, orch)
             | Inr existing_risks \<Rightarrow>
                 if existing_risks \<noteq> [] then
                   (case logger_call env LogInfo
                           (''Resuming session '' @ sid @ '': Skipping risk scoring'')
                           [''session_id''] of
                      Some raised \<Rightarrow> (Inl raised, orch)
                    | None \<Rightarrow>
                        (Inr \<lparr>rk_risk_assessments = existing_risks,
                              rk_high_risk_count =
                                Some (length (filter (\<lambda>r. severity r = high) existing_risks)),
                              rk_status = Some ''skipped_already_exists'',
                              rk_warning = None, rk_error = None\<rparr>, orch))
                 else
                   let orch1 = invoke orch AssessRisksCall
                   in case assess_risks env clauses sid of
                        Inl e \<Rightarrow> (Inl e, orch1)
                      | Inr scored \<Rightarrow>
                          (case store_risk_assessments (memory_bank orch1) sid scored of
                             Inl e \<Rightarrow> (Inl e, orch1)
                           | Inr db' \<Rightarrow>
                               (Inr \<lparr>rk_risk_assessments = scored, rk_high_risk_count = None,
                                     rk_status = None, rk_warning = None, rk_error = None\<rparr>,
                                record_trace (orch1\<lparr>memory_bank := db'\<rparr>)
                                  ''RiskScoringAgent'' True None))))"

definition run_risk_scoring ::
  "collaborators \<Rightarrow> orchestrator \<Rightarrow> string \<Rightarrow> (exn + risk_result) \<times> orchestrator" where
  "run_risk_scoring env orch sid =
     (case risk_scoring_try env orch sid of
        (Inr result, orch') \<Rightarrow> (Inr result, orch')
      | (Inl e, orch') \<Rightarrow>
          let orch'' = record_trace orch' ''RiskScoringAgent'' False (Some (str e))
          in case logger_call env LogError (''RiskScoringAgent failed: '' @ str e)
                    [''session_id''] of
               Some raised \<Rightarrow> (Inl raised, orch'')
             | None \<Rightarrow>
                 if \<not> enable_graceful_degradation orch'' then
                   (Inl (Exn RiskAnalysisError (''Risk scoring failed: '' @ str e)), orch'')
                 else
                   (Inr \<lparr>rk_risk_assessments = [], rk_high_risk_count = Some 0,
                         rk_status = None, rk_warning = None, rk_error = Some (str e)\<rparr>,
                    orch''))"


subsection \<open>Stage 3: redline generation\<close>

definition redline_generation_try ::
  "collaborators \<Rightarrow> orchestrator \<Rightarrow> string \<Rightarrow> (exn + redline_result) \<times> orchestrator" where
  "redline_generation_try env orch sid =
     (case get_clauses (memory_bank orch) sid of
        Inl e \<Rightarrow> (Inl e, orch)
      | Inr clauses \<Rightarrow>
          (case get_risk_assessments (memory_bank orch) sid of
             Inl e \<Rightarrow> (Inl e, orch)
           | Inr assessments \<Rightarrow>
               if clauses = [] \<or> assessments = [] then
                 (Inr \<lparr>rl_redline_proposals = [], rl_proposal_count = 0,
                       rl_high_risk_redlines = None, rl_medium_risk_redlines = None,
                       rl_status = None,
                       rl_warning = Some ''Insufficient data for redline generation'',
                       rl_error = None\<rparr>, orch)
               else
                 (case get_redline_proposals (memory_bank orch) sid of
                    Inl e \<Rightarrow> (Inl e, orch)
                  | Inr existing_proposals \<Rightarrow>
                      if existing_proposals \<noteq> [] then
                        (case logger_call env LogInfo
                                (''Resuming session '' @ sid @ '': Skipping redline generation'')
                                [''session_id''] of
                           Some raised \<Rightarrow> (Inl raised, orch)
                         | None \<Rightarrow>
                             (Inr \<lparr>rl_redline_proposals = existing_proposals,
                                   rl_proposal_count = length existing_proposals,
                                   rl_high_risk_redlines = None,
                                   rl_medium_risk_redlines = None,
                                   rl_status = Some ''skipped_already_exists'',
                                   rl_warning = None, rl_error = None\<rparr>, orch))
                      else
                        let orch1 = invoke orch GenerateRedlinesCall
                        in case generate_redlines env clauses assessments sid of
                             Inl e \<Rightarrow> (Inl e, orch1)
                           | Inr result \<Rightarrow>
                               (case store_redline_proposals (memory_bank orch1) sid
                                       (out_redline_proposals result) of
                                  Inl e \<Rightarrow> (Inl e, orch1)
                                | Inr db' \<Rightarrow>
                                    (Inr \<lparr>rl_redline_proposals = out_redline_proposals result,
                                          rl_proposal_count = out_proposal_count result,
                                          rl_high_risk_redlines =
                                            Some (out_high_risk_redlines result),
                                          rl_medium_risk_redlines =
                                            Some (out_medium_risk_redlines result),
                                          rl_status = None, rl_warning = None,
                                          rl_error = None\<rparr>,
                                     record_trace (orch1\<lparr>memory_bank := db'\<rparr>)
                                       ''RedlineSuggestionAgent'' True None)))))"

definition run_redline_generation ::
  "collaborators \<Rightarrow> orchestrator \<Rightarrow> string \<Rightarrow> (exn + redline_result) \<times> orchestrator" where
  "run_redline_generation env orch sid =
     (case redline_generation_try env orch sid of
        (Inr result, orch') \<Rightarrow> (Inr result, orch')
      | (Inl e, orch') \<Rightarrow>
          let orch'' = record_trace orch' ''RedlineSuggestionAgent'' False (Some (str e))
          in case logger_call env LogError (''RedlineSuggestionAgent failed: '' @ str e)
                    [''session_id''] of
               Some raised \<Rightarrow> (Inl raised, orch'')
             | None \<Rightarrow>
                 if \<not> enable_graceful_degradation orch'' then
                   (Inl (Exn RedlineGenerationError (''Redline generation failed: '' @ str e)),
                    orch'')
                 else
                   (Inr \<lparr>rl_redline_proposals = [], rl_proposal_count = 0,
                         rl_high_risk_redlines = None, rl_medium_risk_redlines = None,
                         rl_status = None, rl_warning = None, rl_error = Some (str e)\<rparr>,
                    orch''))"

subsection \<open>Stage 4: negotiation summary\<close>

definition summary_generation_try ::
  "collaborators \<Rightarrow> orchestrator \<Rightarrow> string \<Rightarrow> (exn + summary_result) \<times> orchestrator" where
  "summary_generation_try env orch sid =
     (case get_clauses (memory_bank orch) sid of
        Inl e \<Rightarrow> (Inl e, orch)
      | Inr clauses \<Rightarrow>
     (case get_risk_assessments (memory_bank orch) sid of
        Inl e \<Rightarrow> (Inl e, orch)
      | Inr assessments \<Rightarrow>
     (case get_redline_proposals (memory_bank orch) sid of
        Inl e \<Rightarrow> (Inl e, orch)
      | Inr proposals \<Rightarrow>
     (case get_session_state (memory_bank orch) sid of
        Inl e \<Rightarrow> (Inl e, orch)
      | Inr session \<Rightarrow>
          if assessments = [] then
            (Inr \<lparr>sm_negotiation_summary = None, sm_status = None,
                  sm_warning = Some ''No risk assessments available for summary'',
                  sm_error = None\<rparr>, orch)
          else
            (case get_negotiation_summary (memory_bank orch) sid of
               Inl e \<Rightarrow> (Inl e, orch)
             | Inr existing_summary \<Rightarrow>
                 if existing_summary \<noteq> None then
                   (case logger_call env LogInfo
                           (''Resuming session '' @ sid @ '': Skipping summary generation'')
                           [''session_id''] of
                      Some raised \<Rightarrow> (Inl raised, orch)
                    | None \<Rightarrow>
                        (Inr \<lparr>sm_negotiation_summary = existing_summary,
                              sm_status = Some ''skipped_already_exists'',
                              sm_warning = None, sm_error = None\<rparr>, orch))
                 else
                   let orch1 = invoke orch GenerateSummaryCall
                   in case generate_summary env clauses assessments proposals sid
                             (Some (contract_metadata session)) of
                        Inl e \<Rightarrow> (Inl e, orch1)
                      | Inr summary \<Rightarrow>
                          (case store_negotiation_summary (memory_bank orch1) sid summary of
                             Inl e \<Rightarrow> (Inl e, orch1)
                           | Inr db' \<Rightarrow>
                               (Inr \<lparr>sm_negotiation_summary = Some summary, sm_status = None,
                                     sm_warning = None, sm_error = None\<rparr>,
                                record_trace (orch1\<lparr>memory_bank := db'\<rparr>)
                                  ''NegotiationSummaryAgent'' True None)))))))"

definition run_summary_generation ::
  "collaborators \<Rightarrow> orchestrator \<Rightarrow> string \<Rightarrow> (exn + summary_result) \<times> orchestrator" where
  "run_summary_generation env orch sid =
     (case summary_generation_try env orch sid of
        (Inr result, orch') \<Rightarrow> (Inr result, orch')
      | (Inl e, orch') \<Rightarrow>
          let orch'' = record_trace orch' ''NegotiationSummaryAgent'' False (Some (str e))
          in case logger_call env LogError (''NegotiationSummaryAgent failed: '' @ str e)
                    [''session_id''] of
               Some raised \<Rightarrow> (Inl raised, orch'')
             | None \<Rightarrow>
                 if \<not> enable_graceful_degradation orch'' then
                   (Inl (Exn ContractCopilotError (''Summary generation failed: '' @ str e)),
                    orch'')
                 else
                   (Inr \<lparr>sm_negotiation_summary = None, sm_status = None, sm_warning = None,
                         sm_error = Some (str e)\<rparr>, orch''))"

subsection \<open>Stage 5: audit compilation\<close>

text \<open>
  The executor is handed \<^verbatim>\<open>self.agent_traces\<close> as it stands when the call is made:
  the traces recorded so far, the audit stage's own not yet among them. It is the list
  object itself that is handed over and put into the bundle, and \<^verbatim>\<open>_record_trace\<close>
  appends to that same object. So the bundle that is stored, which is encoded at that
  moment, holds the traces recorded before the audit stage's own, and the bundle in the
  returned dictionary, which is read after the trace has been appended, holds that
  trace as well.
\<close>

definition audit_compilation_try ::
  "collaborators \<Rightarrow> orchestrator \<Rightarrow> string \<Rightarrow> (exn + audit_result) \<times> orchestrator" where
  "audit_compilation_try env orch sid =
     (case get_session_state (memory_bank orch) sid of
        Inl e \<Rightarrow> (Inl e, orch)
      | Inr session \<Rightarrow>
          (case get_audit_bundle (memory_bank orch) sid of
             Inl e \<Rightarrow> (Inl e, orch)
           | Inr existing_bundle \<Rightarrow>
               if existing_bundle \<noteq> None then
                 (case logger_call env LogInfo
                         (''Resuming session '' @ sid @ '': Skipping audit compilation'')
                         [''session_id''] of
                    Some raised \<Rightarrow> (Inl raised, orch)
                  | None \<Rightarrow>
                      (Inr \<lparr>au_audit_bundle = existing_bundle, au_json_export = None,
                            au_markdown_export = None,
                            au_status = Some ''skipped_already_exists'', au_error = None\<rparr>,
                       orch))
               else
                 let orch1 = invoke orch (CompileAuditBundleCall (agent_traces orch))
                 in case compile_audit_bundle env sid (normalized_text session)
                           (extracted_clauses session) (risk_assessments session)
                           (redline_proposals session) (negotiation_summary session)
                           (agent_traces orch) (Some (contract_metadata session)) of
                      Inl e \<Rightarrow> (Inl e, orch1)
                    | Inr (bundle, json_export, markdown_export) \<Rightarrow>
                        (case store_audit_bundle (memory_bank orch1) sid bundle of
                           Inl e \<Rightarrow> (Inl e, orch1)
                         | Inr db' \<Rightarrow>
                             let orch2 = record_trace (orch1\<lparr>memory_bank := db'\<rparr>)
                                           ''ComplianceAuditAgent'' True None
                             in (Inr \<lparr>au_audit_bundle =
                                        Some (bundle\<lparr>ab_agent_traces := agent_traces orch2\<rparr>),
                                      au_json_export = Some json_export,
                                      au_markdown_export = Some markdown_export,
                                      au_status = None, au_error = None\<rparr>,
                                 orch2))))"

definition run_audit_compilation ::
  "collaborators \<Rightarrow> orchestrator \<Rightarrow> string \<Rightarrow> (exn + audit_result) \<times> orchestrator" where
  "run_audit_compilation env orch sid =
     (case audit_compilation_try env orch sid of
        (Inr result, orch') \<Rightarrow> (Inr result, orch')
      | (Inl e, orch') \<Rightarrow>
          let orch'' = record_trace orch' ''ComplianceAuditAgent'' False (Some (str e))
          in case logger_call env LogError (''ComplianceAuditAgent failed: '' @ str e)
                    [''session_id''] of
               Some raised \<Rightarrow> (Inl raised, orch'')
             | None \<Rightarrow>
                 if \<not> enable_graceful_degradation orch'' then
                   (Inl (Exn ContractCopilotError (''Audit compilation failed: '' @ str e)),
                    orch'')
                 else
                   (Inr \<lparr>au_audit_bundle = None, au_json_export = None,
                         au_markdown_export = None, au_status = None,
                         au_error = Some (str e)\<rparr>, orch''))"

subsection \<open>The entry point\<close>

text \<open>\<^verbatim>\<open>_save_partial_results\<close>: two entries of the \<^verbatim>\<open>state\<close> table.\<close>

definition save_partial_results :: "orchestrator \<Rightarrow> string \<Rightarrow> string list \<Rightarrow> orchestrator" where
  "save_partial_results orch sid errs =
     orch\<lparr>memory_bank :=
       set_custom_state
         (set_custom_state (memory_bank orch) sid ''processing_errors'' (StringsValue errs))
         sid ''processing_status'' (StringValue ''failed'')\<rparr>"

text \<open>
  The \<^verbatim>\<open>except\<close> clause of \<^verbatim>\<open>process_contract\<close>: the failure is logged (the
  message embeds the text of the exception and is formatted with the keyword argument
  \<^verbatim>\<open>session_id\<close>; an exception raised by the log call leaves the method at once);
  with a truthy session id the partial results are saved; then
  \<^verbatim>\<open>ContractCopilotError\<close> is raised.
\<close>

definition processing_failed ::
  "collaborators \<Rightarrow> orchestrator \<Rightarrow> string option \<Rightarrow> string list \<Rightarrow> exn
   \<Rightarrow> (exn + 'a) \<times> orchestrator" where
  "processing_failed env orch sid_opt errs e =
     (case logger_call env LogError (''Contract processing failed: '' @ str e)
             [''session_id''] of
        Some raised \<Rightarrow> (Inl raised, orch)
      | None \<Rightarrow>
          (Inl (Exn ContractCopilotError (''Contract processing failed: '' @ str e)),
           (case sid_opt of
              None \<Rightarrow> orch
            | Some sid \<Rightarrow> if sid \<noteq> [] then save_partial_results orch sid errs else orch)))"

record process_result =
  pr_session_id :: string
  pr_status :: string
  pr_ingestion :: ingestion_result
  pr_extraction :: extraction_result
  pr_risk_scoring :: risk_result
  pr_redline :: redline_result
  pr_summary :: summary_result
  pr_audit :: audit_result
  pr_agent_traces :: "agent_trace list"
  pr_errors :: "string list"

text \<open>
  \<^verbatim>\<open>process_contract\<close>. The trace list is reset, the local list \<^verbatim>\<open>errors\<close> starts
  empty, the six stage methods run in order, and the result is assembled. No statement
  of the method appends to \<^verbatim>\<open>errors\<close>. The elapsed time is left out. The
  entry \<^verbatim>\<open>agent_traces\<close> of the result is the orchestrator's list object, to
  which nothing is appended after the last stage.
\<close>

definition process_contract ::
  "collaborators \<Rightarrow> orchestrator \<Rightarrow> file_input \<Rightarrow> string \<Rightarrow> string option
   \<Rightarrow> (exn + process_result) \<times> orchestrator" where
  "process_contract env orch file uid sid_opt =
     (let orch0 = orch\<lparr>agent_traces := []\<rparr>;
          errs = []
      in case run_ingestion env orch0 file sid_opt of
           (Inl e, orch1) \<Rightarrow> processing_failed env orch1 sid_opt errs e
         | (Inr ingestion, orch1) \<Rightarrow>
      let sid = (case sid_opt of None \<Rightarrow> ir_session_id ingestion | Some given \<Rightarrow> given)
      in case run_extraction env orch1 sid of
           (Inl e, orch2) \<Rightarrow> processing_failed env orch2 (Some sid) errs e
         | (Inr extraction, orch2) \<Rightarrow>
        (case run_risk_scoring env orch2 sid of
           (Inl e, orch3) \<Rightarrow> processing_failed env orch3 (Some sid) errs e
         | (Inr risk, orch3) \<Rightarrow>
        (case run_redline_generation env orch3 sid of
           (Inl e, orch4) \<Rightarrow> processing_failed env orch4 (Some sid) errs e
         | (Inr redline, orch4) \<Rightarrow>
        (case run_summary_generation env orch4 sid of
           (Inl e, orch5) \<Rightarrow> processing_failed env orch5 (Some sid) errs e
         | (Inr summary, orch5) \<Rightarrow>
        (case run_audit_compilation env orch5 sid of
           (Inl e, orch6) \<Rightarrow> processing_failed env orch6 (Some sid) errs e
         | (Inr audit, orch6) \<Rightarrow>
             (Inr \<lparr>pr_session_id = sid,
                   pr_status = (if errs = [] then ''completed'' else ''completed_with_errors''),
                   pr_ingestion = ingestion, pr_extraction = extraction,
                   pr_risk_scoring = risk, pr_redline = redline,
                   pr_summary = summary, pr_audit = audit,
                   pr_agent_traces = agent_traces orch6,
                   pr_errors = errs\<rparr>, orch6))))))"

section \<open>Example inputs\<close>


text \<open>Three clauses with one finding each: high, medium and low.\<close>

definition c1 :: clause where
  "c1 = \<lparr>clause_id = ''c1'', clause_type = ''liability'', clause_text = ''A'',
          start_line = 1, end_line = 2, page_number = 1\<rparr>"

definition c2 :: clause where
  "c2 = \<lparr>clause_id = ''c2'', clause_type = ''termination'', clause_text = ''B'',
          start_line = 3, end_line = 4, page_number = 1\<rparr>"

definition c3 :: clause where
  "c3 = \<lparr>clause_id = ''c3'', clause_type = ''payment_terms'', clause_text = ''C'',
          start_line = 5, end_line = 6, page_number = 1\<rparr>"

definition r1 :: risk_assessment where
  "r1 = \<lparr>ra_clause_id = ''c1'', severity = high, risk_type = ''x'', explanation = ''y'',
          llm_rationale = None\<rparr>"

definition r2 :: risk_assessment where
  "r2 = \<lparr>ra_clause_id = ''c2'', severity = medium, risk_type = ''x'', explanation = ''y'',
          llm_rationale = None\<rparr>"

definition r3 :: risk_assessment where
  "r3 = \<lparr>ra_clause_id = ''c3'', severity = low, risk_type = ''x'', explanation = ''y'',
          llm_rationale = None\<rparr>"

definition m0 :: contract_metadata where
  "m0 = \<lparr>parties = [''P'', ''Q''], date = None, jurisdiction = None, contract_type = None\<rparr>"

definition s0 :: negotiation_summary where
  "s0 = \<lparr>checklist = [''a''], draft_email = ''e'', executive_summary = ''s'',
          priority_issues = []\<rparr>"

text \<open>Collaborators that all succeed, with a logger that returns from every call, and
  a failure to put in the place of one of them.\<close>

definition env0 :: collaborators where
  "env0 = \<lparr>uuid4 = ''u1'',
     process_file = (\<lambda>f sid. Inr \<lparr>normalized_contract = ''text'', metadata = m0,
                                   page_count = 1\<rparr>),
     extract_clauses = (\<lambda>t sid. Inr [c1, c2, c3]),
     assess_risks = (\<lambda>cs sid. Inr [r1, r2, r3]),
     redline_text = (\<lambda>c r i. Inr (''p'', ''w'')),
     generate_diff = (\<lambda>a b. ''d''),
     generate_summary = (\<lambda>cs rs ps sid m. Inr s0),
     disclaimer_text = (\<lambda>sid. ''x''),
     render_json = (\<lambda>b. Inr ''j''),
     render_markdown = (\<lambda>b m. Inr ''m''),
     logger_call = (\<lambda>level message keys. None)\<rparr>"

definition boom :: exn where
  "boom = Exn OtherException ''boom''"

definition env_ingestion_fails :: collaborators where
  "env_ingestion_fails = env0\<lparr>process_file := (\<lambda>f sid. Inl boom)\<rparr>"

definition env_extraction_fails :: collaborators where
  "env_extraction_fails = env0\<lparr>extract_clauses := (\<lambda>t sid. Inl boom)\<rparr>"

definition env_scoring_fails :: collaborators where
  "env_scoring_fails = env0\<lparr>assess_risks := (\<lambda>cs sid. Inl boom)\<rparr>"

definition env_summary_fails :: collaborators where
  "env_summary_fails = env0\<lparr>generate_summary := (\<lambda>cs rs ps sid m. Inl boom)\<rparr>"

definition env_no_clauses :: collaborators where
  "env_no_clauses = env0\<lparr>extract_clauses := (\<lambda>t sid. Inr [])\<rparr>"

definition env_c2_text_fails :: collaborators where
  "env_c2_text_fails =
     env0\<lparr>redline_text := (\<lambda>c r i. if clause_id c = ''c2'' then Inl boom else Inr (''p'', ''w''))\<rparr>"

text \<open>
  A logger whose formatting fails on every message that holds an opening brace, as
  \<^verbatim>\<open>str.format\<close> does on the replacement field \<^verbatim>\<open>{2}\<close> when no positional
  argument is passed; a clause whose id holds that field, with a high-severity finding;
  and collaborators that extract that clause, score it so, and log with that logger.
\<close>

definition brace_logger :: "log_level \<Rightarrow> string \<Rightarrow> string list \<Rightarrow> exn option" where
  "brace_logger level message keys =
     (if CHR ''{'' \<in> set message
      then Some (Exn IndexError ''Replacement index 2 out of range for positional args tuple'')
      else None)"

definition c_brace :: clause where
  "c_brace = \<lparr>clause_id = ''c{2}'', clause_type = ''liability'', clause_text = ''A'',
               start_line = 1, end_line = 2, page_number = 1\<rparr>"

definition r_brace :: risk_assessment where
  "r_brace = \<lparr>ra_clause_id = ''c{2}'', severity = high, risk_type = ''x'', explanation = ''y'',
               llm_rationale = None\<rparr>"

definition env_braces :: collaborators where
  "env_braces = env0\<lparr>extract_clauses := (\<lambda>t sid. Inr [c_brace]),
                      assess_risks := (\<lambda>cs sid. Inr [r_brace]),
                      logger_call := brace_logger\<rparr>"

text \<open>An empty database, a new orchestrator on it, and an uploaded file.\<close>

definition db0 :: database where
  "db0 = \<lparr>sessions = [], state = Map.empty, events = []\<rparr>"

definition orch0 :: "bool \<Rightarrow> orchestrator" where
  "orch0 degrade = \<lparr>enable_graceful_degradation = degrade, agent_traces = [],
                     memory_bank = db0, invocations = []\<rparr>"

definition f0 :: file_input where
  "f0 = \<lparr>file_path = None, file_bytes = Some ''bytes'', upload_filename = Some ''a.txt''\<rparr>"

text \<open>A stored run whose slots 0 and 1 are populated, and an orchestrator on it.\<close>

definition stored_session :: contract_session where
  "stored_session = \<lparr>session_id = ''s1'', user_id = ''default_user'', filename = ''a.txt'',
     contract_metadata = m0, normalized_text = ''text'', extracted_clauses = [c1, c2, c3],
     risk_assessments = [], redline_proposals = [], negotiation_summary = None,
     audit_bundle = None\<rparr>"

definition db1 :: database where
  "db1 = \<lparr>sessions = [stored_session], state = Map.empty, events = []\<rparr>"

definition orch1 :: "bool \<Rightarrow> orchestrator" where
  "orch1 degrade = \<lparr>enable_graceful_degradation = degrade, agent_traces = [],
                     memory_bank = db1, invocations = []\<rparr>"

text \<open>An audit bundle with a negotiation summary.\<close>

definition b1 :: audit_bundle where
  "b1 = \<lparr>ab_session_id = ''s1'', ab_original_contract = ''text'',
          ab_extracted_clauses = [c1, c2, c3], ab_risk_assessments = [],
          ab_redline_proposals = [], ab_negotiation_summary = Some s0,
          ab_agent_traces = [], disclaimer = ''x''\<rparr>"



text \<open>Observations of an outcome of \<open>process_contract\<close>: the result it returned, if it
  returned one, and the flags of the traces in it.\<close>

definition returned :: "(exn + process_result) \<times> orchestrator \<Rightarrow> process_result option" where
  "returned outcome = (case fst outcome of Inl e \<Rightarrow> None | Inr r \<Rightarrow> Some r)"

definition raised :: "(exn + process_result) \<times> orchestrator \<Rightarrow> exn option" where
  "raised outcome = (case fst outcome of Inl e \<Rightarrow> Some e | Inr r \<Rightarrow> None)"

definition trace_flags :: "agent_trace list \<Rightarrow> (string \<times> bool) list" where
  "trace_flags traces = map (\<lambda>t. (agent_name t, success t)) traces"

text \<open>A caller that writes the clause slot twice and reads it back.\<close>

definition write_twice_then_read ::
  "database \<Rightarrow> string \<Rightarrow> clause list \<Rightarrow> clause list \<Rightarrow> exn + clause list" where
  "write_twice_then_read db sid first second =
     (case store_clauses db sid first of
        Inl e \<Rightarrow> Inl e
      | Inr db' \<Rightarrow>
          (case store_clauses db' sid second of
             Inl e \<Rightarrow> Inl e
           | Inr db'' \<Rightarrow> get_clauses db'' sid))"

section \<open>Predicates on the store\<close>

text \<open>
  The part of the stage order that every write of the orchestrator respects: risk
  assessments only with clauses, redline proposals only with risk assessments, a summary
  only with risk assessments. A list slot is populated when it is not empty, an optional
  slot when it is not \<open>None\<close>: that is how the orchestrator's own checks read them.
\<close>

definition stage_order_holds :: "contract_session \<Rightarrow> bool" where
  "stage_order_holds s \<longleftrightarrow>
     (risk_assessments s \<noteq> [] \<longrightarrow> extracted_clauses s \<noteq> []) \<and>
     (redline_proposals s \<noteq> [] \<longrightarrow> risk_assessments s \<noteq> []) \<and>
     (negotiation_summary s \<noteq> None \<longrightarrow> risk_assessments s \<noteq> [])"

definition store_in_order :: "database \<Rightarrow> bool" where
  "store_in_order db = list_all stage_order_holds (sessions db)"

text \<open>A session that has an audit bundle (slot 5) and no negotiation summary (slot 4).\<close>

definition audit_without_summary :: "contract_session \<Rightarrow> bool" where
  "audit_without_summary s \<longleftrightarrow> audit_bundle s \<noteq> None \<and> negotiation_summary s = None"

text \<open>The slots after the clauses are all absent.\<close>

definition later_slots_absent :: "contract_session \<Rightarrow> bool" where
  "later_slots_absent s \<longleftrightarrow>
     risk_assessments s = [] \<and> redline_proposals s = [] \<and>
     negotiation_summary s = None \<and> audit_bundle s = None"

section \<open>Points of a run\<close>

text \<open>
  Names for the session id a call of \<open>process_contract\<close> works on and for the state of
  the orchestrator after each of its first five stages.
\<close>

definition run_id :: "collaborators \<Rightarrow> string option \<Rightarrow> string" where
  "run_id env sid_opt = (case sid_opt of None \<Rightarrow> uuid4 env | Some given \<Rightarrow> given)"

definition after_ingestion ::
  "collaborators \<Rightarrow> orchestrator \<Rightarrow> file_input \<Rightarrow> string option \<Rightarrow> orchestrator" where
  "after_ingestion env orch inp sid_opt =
     snd (run_ingestion env (orch\<lparr>agent_traces := []\<rparr>) inp sid_opt)"

definition after_extraction ::
  "collaborators \<Rightarrow> orchestrator \<Rightarrow> file_input \<Rightarrow> string option \<Rightarrow> orchestrator" where
  "after_extraction env orch inp sid_opt =
     snd (run_extraction env (after_ingestion env orch inp sid_opt) (run_id env sid_opt))"

definition after_risk_scoring ::
  "collaborators \<Rightarrow> orchestrator \<Rightarrow> file_input \<Rightarrow> string option \<Rightarrow> orchestrator" where
  "after_risk_scoring env orch inp sid_opt =
     snd (run_risk_scoring env (after_extraction env orch inp sid_opt) (run_id env sid_opt))"

definition after_redline_generation ::
  "collaborators \<Rightarrow> orchestrator \<Rightarrow> file_input \<Rightarrow> string option \<Rightarrow> orchestrator" where
  "after_redline_generation env orch inp sid_opt =
     snd (run_redline_generation env (after_risk_scoring env orch inp sid_opt)
            (run_id env sid_opt))"

definition after_summary_generation ::
  "collaborators \<Rightarrow> orchestrator \<Rightarrow> file_input \<Rightarrow> string option \<Rightarrow> orchestrator" where
  "after_summary_generation env orch inp sid_opt =
     snd (run_summary_generation env (after_redline_generation env orch inp sid_opt)
            (run_id env sid_opt))"

text \<open>
  The error log call of a stage handler returns: \<open>outcome\<close> is the outcome of the
  stage's \<^verbatim>\<open>try\<close> block and \<open>name\<close> the agent name in the message. When the
  block did not raise there is no such call.
\<close>

definition failure_logged :: "collaborators \<Rightarrow> string \<Rightarrow> exn + 'a \<Rightarrow> bool" where
  "failure_logged env name outcome =
     (case outcome of
        Inr result \<Rightarrow> True
      | Inl e \<Rightarrow> logger_call env LogError (name @ '' failed: '' @ str e) [''session_id''] = None)"

section \<open>Verified properties\<close>

subsection \<open>Retry policy\<close>

declare retry_loop.simps [simp del]
declare bit_length.simps [simp del]


lemma bit_length_pos: "0 < n \<Longrightarrow> 0 < bit_length n"
  by (subst bit_length.simps) simp










subsection \<open>The store\<close>

lemma find_row_log_event [simp]: "find_row (log_event db a b) sid = find_row db sid"
  by (simp add: find_row_def log_event_def)

lemma find_row_set_state [simp]: "find_row (set_state db a k v) sid = find_row db sid"
  by (simp add: find_row_def set_state_def)

lemma find_replace_row:
  "find (\<lambda>row. session_id row = sid)
     (map (\<lambda>row. if session_id row = session_id s then s else row) rows)
   = (if sid = session_id s
      then (case find (\<lambda>row. session_id row = sid) rows of None \<Rightarrow> None | Some old \<Rightarrow> Some s)
      else find (\<lambda>row. session_id row = sid) rows)"
  by (induction rows) auto

lemma find_row_update_session:
  "find_row (update_session db s) sid
   = (if sid = session_id s
      then (case find_row db sid of None \<Rightarrow> None | Some old \<Rightarrow> Some s)
      else find_row db sid)"
  by (simp add: update_session_def find_row_def log_event_def find_replace_row)

lemma find_row_id: "find_row db sid = Some s \<Longrightarrow> session_id s = sid"
  by (auto simp: find_row_def find_Some_iff)

lemma get_session_row:
  "get_session db sid = Inr (Some s) \<longleftrightarrow> find_row db sid = Some s \<and> decode_row s = Inr s"
  by (auto simp: get_session_def decode_row_def split: option.splits sum.splits if_splits)

lemma get_session_fresh:
  "find_row db sid = Some s \<Longrightarrow> audit_bundle s = None \<Longrightarrow> get_session db sid = Inr (Some s)"
  by (simp add: get_session_row decode_row_def)

lemma decode_row_slot:
  "decode_row s = Inr s \<Longrightarrow> audit_bundle s' = audit_bundle s \<Longrightarrow> decode_row s' = Inr s'"
  by (auto simp: decode_row_def split: option.splits if_splits)

lemma find_row_in_order:
  "store_in_order db \<Longrightarrow> find_row db sid = Some s \<Longrightarrow> stage_order_holds s"
  by (auto simp: store_in_order_def find_row_def find_Some_iff list_all_iff)

lemma store_in_order_write:
  assumes "store_in_order db" and "find_row db sid = Some s"
    and "stage_order_holds s \<Longrightarrow> stage_order_holds s'"
  shows "store_in_order (set_state (update_session db s') sid k v)"
proof -
  have "stage_order_holds s'" using assms find_row_in_order by blast
  then show ?thesis
    using assms(1)
    by (auto simp: store_in_order_def set_state_def update_session_def log_event_def
        list_all_iff)
qed

lemma store_in_order_set_state:
  "store_in_order (set_state db sid k v) = store_in_order db"
  by (simp add: store_in_order_def set_state_def)

lemma store_in_order_create:
  "create_session db sid uid fname meta text = Inr (s, db') \<Longrightarrow> store_in_order db
   \<Longrightarrow> store_in_order db'"
  by (auto simp: create_session_def store_in_order_def log_event_def stage_order_holds_def
      Let_def split: if_splits)

lemma session_or_raise_row:
  "session_or_raise db sid prefix = Inr s \<longleftrightarrow> get_session db sid = Inr (Some s)"
  by (auto simp: session_or_raise_def split: sum.splits option.splits)

lemmas getters = get_clauses_def get_risk_assessments_def get_redline_proposals_def
  get_negotiation_summary_def get_audit_bundle_def get_normalized_text_def
  get_session_state_def

lemmas stores = store_clauses_def store_risk_assessments_def store_redline_proposals_def
  store_negotiation_summary_def store_audit_bundle_def

lemma memory_bank_record_trace [simp]: "memory_bank (record_trace orch n ok err) = memory_bank orch"
  by (simp add: record_trace_def)

lemma memory_bank_invoke [simp]: "memory_bank (invoke orch c) = memory_bank orch"
  by (simp add: invoke_def)

lemma map_sum_Inr_iff: "map_sum f g x = Inr y \<longleftrightarrow> (\<exists>z. x = Inr z \<and> y = g z)"
  by (cases x) auto

subsection \<open>What each stage writes\<close>

lemma ingestion_try_writes:
  assumes "ingestion_try env orch inp sid_opt = (res, orch')"
  shows "memory_bank orch' = memory_bank orch \<or>
         (\<exists>fname meta text s.
            create_session (memory_bank orch) (case sid_opt of None \<Rightarrow> uuid4 env | Some g \<Rightarrow> g)
              ''default_user'' fname meta text = Inr (s, memory_bank orch'))"
  using assms
  by (fastforce simp: ingestion_try_def create_new_session_def Let_def
      split: sum.splits option.splits if_splits prod.splits)

lemma extraction_try_writes:
  assumes "extraction_try env orch sid = (res, orch')"
  shows "memory_bank orch' = memory_bank orch \<or>
         (\<exists>s found. get_session (memory_bank orch) sid = Inr (Some s) \<and> extracted_clauses s = [] \<and>
            memory_bank orch' =
              set_state (update_session (memory_bank orch) (s\<lparr>extracted_clauses := found\<rparr>))
                sid ''extracted_clauses'' (ClausesValue found))"
  using assms
  by (auto simp: extraction_try_def getters stores Let_def map_sum_Inr_iff session_or_raise_row
      split: sum.splits option.splits if_splits prod.splits)

lemma risk_scoring_try_writes:
  assumes "risk_scoring_try env orch sid = (res, orch')"
  shows "memory_bank orch' = memory_bank orch \<or>
         (\<exists>s scored. get_session (memory_bank orch) sid = Inr (Some s) \<and> extracted_clauses s \<noteq> [] \<and>
            risk_assessments s = [] \<and>
            memory_bank orch' =
              set_state (update_session (memory_bank orch) (s\<lparr>risk_assessments := scored\<rparr>))
                sid ''risk_assessments'' (RisksValue scored))"
  using assms
  by (auto simp: risk_scoring_try_def getters stores Let_def map_sum_Inr_iff session_or_raise_row
      split: sum.splits option.splits if_splits prod.splits)

lemma redline_generation_try_writes:
  assumes "redline_generation_try env orch sid = (res, orch')"
  shows "memory_bank orch' = memory_bank orch \<or>
         (\<exists>s proposals. get_session (memory_bank orch) sid = Inr (Some s) \<and>
            extracted_clauses s \<noteq> [] \<and> risk_assessments s \<noteq> [] \<and> redline_proposals s = [] \<and>
            memory_bank orch' =
              set_state (update_session (memory_bank orch) (s\<lparr>redline_proposals := proposals\<rparr>))
                sid ''redline_proposals'' (ProposalsValue proposals))"
  using assms
  by (auto simp: redline_generation_try_def getters stores Let_def map_sum_Inr_iff
      session_or_raise_row
      split: sum.splits option.splits if_splits prod.splits)

lemma summary_generation_try_writes:
  assumes "summary_generation_try env orch sid = (res, orch')"
  shows "memory_bank orch' = memory_bank orch \<or>
         (\<exists>s summary. get_session (memory_bank orch) sid = Inr (Some s) \<and>
            risk_assessments s \<noteq> [] \<and> negotiation_summary s = None \<and>
            memory_bank orch' =
              set_state (update_session (memory_bank orch) (s\<lparr>negotiation_summary := Some summary\<rparr>))
                sid ''negotiation_summary'' (SummaryValue summary))"
  using assms
  by (auto simp: summary_generation_try_def getters stores Let_def map_sum_Inr_iff
      session_or_raise_row
      split: sum.splits option.splits if_splits prod.splits)

lemma audit_compilation_try_writes:
  assumes "audit_compilation_try env orch sid = (res, orch')"
  shows "memory_bank orch' = memory_bank orch \<or>
         (\<exists>s bnd. get_session (memory_bank orch) sid = Inr (Some s) \<and> audit_bundle s = None \<and>
            memory_bank orch' =
              set_state (update_session (memory_bank orch) (s\<lparr>audit_bundle := Some bnd\<rparr>))
                sid ''audit_bundle'' (BundleValue bnd))"
  using assms
  by (auto simp: audit_compilation_try_def getters stores Let_def map_sum_Inr_iff
      session_or_raise_row
      split: sum.splits option.splits if_splits prod.splits)

lemma run_ingestion_memory:
  "memory_bank (snd (run_ingestion env orch inp sid_opt))
     = memory_bank (snd (ingestion_try env orch inp sid_opt))"
  by (simp add: run_ingestion_def split: prod.splits sum.splits)

lemma run_extraction_memory:
  "memory_bank (snd (run_extraction env orch sid)) = memory_bank (snd (extraction_try env orch sid))"
  by (simp add: run_extraction_def Let_def split: prod.splits sum.splits option.splits)

lemma run_risk_scoring_memory:
  "memory_bank (snd (run_risk_scoring env orch sid))
     = memory_bank (snd (risk_scoring_try env orch sid))"
  by (simp add: run_risk_scoring_def Let_def split: prod.splits sum.splits option.splits)

lemma run_redline_generation_memory:
  "memory_bank (snd (run_redline_generation env orch sid))
     = memory_bank (snd (redline_generation_try env orch sid))"
  by (simp add: run_redline_generation_def Let_def split: prod.splits sum.splits option.splits)

lemma run_summary_generation_memory:
  "memory_bank (snd (run_summary_generation env orch sid))
     = memory_bank (snd (summary_generation_try env orch sid))"
  by (simp add: run_summary_generation_def Let_def split: prod.splits sum.splits option.splits)

lemma run_audit_compilation_memory:
  "memory_bank (snd (run_audit_compilation env orch sid))
     = memory_bank (snd (audit_compilation_try env orch sid))"
  by (simp add: run_audit_compilation_def Let_def split: prod.splits sum.splits option.splits)

lemma ingestion_in_order:
  assumes "store_in_order (memory_bank orch)"
  shows "store_in_order (memory_bank (snd (run_ingestion env orch inp sid_opt)))"
  using ingestion_try_writes[OF surjective_pairing, where env=env and orch=orch and inp=inp
          and sid_opt=sid_opt] assms
  by (auto simp: run_ingestion_memory dest: store_in_order_create)

lemma extraction_in_order:
  assumes "store_in_order (memory_bank orch)"
  shows "store_in_order (memory_bank (snd (run_extraction env orch sid)))"
proof -
  let ?db' = "memory_bank (snd (extraction_try env orch sid))"
  note w = extraction_try_writes[OF surjective_pairing, where env=env and orch=orch and sid=sid]
  show ?thesis
    unfolding run_extraction_memory
    using w
  proof (elim disjE exE conjE)
    assume "?db' = memory_bank orch"
    then show "store_in_order ?db'" using assms by simp
  next
    fix s found
    assume gs: "get_session (memory_bank orch) sid = Inr (Some s)" and g0: "extracted_clauses s = []"
      and eq: "?db' = set_state (update_session (memory_bank orch) (s\<lparr>extracted_clauses := found\<rparr>))
                       sid ''extracted_clauses'' (ClausesValue found)"
    have "store_in_order (set_state (update_session (memory_bank orch) (s\<lparr>extracted_clauses := found\<rparr>))
            sid ''extracted_clauses'' (ClausesValue found))"
      by (rule store_in_order_write[OF assms gs[unfolded get_session_row, THEN conjunct1]])
         (use g0 in \<open>auto simp: stage_order_holds_def\<close>)
    then show "store_in_order ?db'" using eq by simp
  qed
qed

lemma risk_scoring_in_order:
  assumes "store_in_order (memory_bank orch)"
  shows "store_in_order (memory_bank (snd (run_risk_scoring env orch sid)))"
proof -
  let ?db' = "memory_bank (snd (risk_scoring_try env orch sid))"
  note w = risk_scoring_try_writes[OF surjective_pairing, where env=env and orch=orch and sid=sid]
  show ?thesis
    unfolding run_risk_scoring_memory
    using w
  proof (elim disjE exE conjE)
    assume "?db' = memory_bank orch"
    then show "store_in_order ?db'" using assms by simp
  next
    fix s scored
    assume gs: "get_session (memory_bank orch) sid = Inr (Some s)" and g0: "extracted_clauses s \<noteq> []" and g1: "risk_assessments s = []"
      and eq: "?db' = set_state (update_session (memory_bank orch) (s\<lparr>risk_assessments := scored\<rparr>))
                       sid ''risk_assessments'' (RisksValue scored)"
    have "store_in_order (set_state (update_session (memory_bank orch) (s\<lparr>risk_assessments := scored\<rparr>))
            sid ''risk_assessments'' (RisksValue scored))"
      by (rule store_in_order_write[OF assms gs[unfolded get_session_row, THEN conjunct1]])
         (use g0 g1 in \<open>auto simp: stage_order_holds_def\<close>)
    then show "store_in_order ?db'" using eq by simp
  qed
qed

lemma redline_generation_in_order:
  assumes "store_in_order (memory_bank orch)"
  shows "store_in_order (memory_bank (snd (run_redline_generation env orch sid)))"
proof -
  let ?db' = "memory_bank (snd (redline_generation_try env orch sid))"
  note w = redline_generation_try_writes[OF surjective_pairing, where env=env and orch=orch and sid=sid]
  show ?thesis
    unfolding run_redline_generation_memory
    using w
  proof (elim disjE exE conjE)
    assume "?db' = memory_bank orch"
    then show "store_in_order ?db'" using assms by simp
  next
    fix s proposals
    assume gs: "get_session (memory_bank orch) sid = Inr (Some s)" and g0: "extracted_clauses s \<noteq> []" and g1: "risk_assessments s \<noteq> []" and g2: "redline_proposals s = []"
      and eq: "?db' = set_state (update_session (memory_bank orch) (s\<lparr>redline_proposals := proposals\<rparr>))
                       sid ''redline_proposals'' (ProposalsValue proposals)"
    have "store_in_order (set_state (update_session (memory_bank orch) (s\<lparr>redline_proposals := proposals\<rparr>))
            sid ''redline_proposals'' (ProposalsValue proposals))"
      by (rule store_in_order_write[OF assms gs[unfolded get_session_row, THEN conjunct1]])
         (use g0 g1 g2 in \<open>auto simp: stage_order_holds_def\<close>)
    then show "store_in_order ?db'" using eq by simp
  qed
qed

lemma summary_generation_in_order:
  assumes "store_in_order (memory_bank orch)"
  shows "store_in_order (memory_bank (snd (run_summary_generation env orch sid)))"
proof -
  let ?db' = "memory_bank (snd (summary_generation_try env orch sid))"
  note w = summary_generation_try_writes[OF surjective_pairing, where env=env and orch=orch and sid=sid]
  show ?thesis
    unfolding run_summary_generation_memory
    using w
  proof (elim disjE exE conjE)
    assume "?db' = memory_bank orch"
    then show "store_in_order ?db'" using assms by simp
  next
    fix s summary
    assume gs: "get_session (memory_bank orch) sid = Inr (Some s)" and g0: "risk_assessments s \<noteq> []" and g1: "negotiation_summary s = None"
      and eq: "?db' = set_state (update_session (memory_bank orch) (s\<lparr>negotiation_summary := Some summary\<rparr>))
                       sid ''negotiation_summary'' (SummaryValue summary)"
    have "store_in_order (set_state (update_session (memory_bank orch) (s\<lparr>negotiation_summary := Some summary\<rparr>))
            sid ''negotiation_summary'' (SummaryValue summary))"
      by (rule store_in_order_write[OF assms gs[unfolded get_session_row, THEN conjunct1]])
         (use g0 g1 in \<open>auto simp: stage_order_holds_def\<close>)
    then show "store_in_order ?db'" using eq by simp
  qed
qed

lemma audit_compilation_in_order:
  assumes "store_in_order (memory_bank orch)"
  shows "store_in_order (memory_bank (snd (run_audit_compilation env orch sid)))"
proof -
  let ?db' = "memory_bank (snd (audit_compilation_try env orch sid))"
  note w = audit_compilation_try_writes[OF surjective_pairing, where env=env and orch=orch and sid=sid]
  show ?thesis
    unfolding run_audit_compilation_memory
    using w
  proof (elim disjE exE conjE)
    assume "?db' = memory_bank orch"
    then show "store_in_order ?db'" using assms by simp
  next
    fix s bnd
    assume gs: "get_session (memory_bank orch) sid = Inr (Some s)" and g0: "audit_bundle s = None"
      and eq: "?db' = set_state (update_session (memory_bank orch) (s\<lparr>audit_bundle := Some bnd\<rparr>))
                       sid ''audit_bundle'' (BundleValue bnd)"
    have "store_in_order (set_state (update_session (memory_bank orch) (s\<lparr>audit_bundle := Some bnd\<rparr>))
            sid ''audit_bundle'' (BundleValue bnd))"
      by (rule store_in_order_write[OF assms gs[unfolded get_session_row, THEN conjunct1]])
         (use g0 in \<open>auto simp: stage_order_holds_def\<close>)
    then show "store_in_order ?db'" using eq by simp
  qed
qed

text \<open>A property of the orchestrator that every stage method keeps is kept by the
  entry point.\<close>

lemma process_contract_preserves:
  assumes ing: "\<And>orch f s. P orch \<Longrightarrow> P (snd (run_ingestion env orch f s))"
    and ext: "\<And>orch s. P orch \<Longrightarrow> P (snd (run_extraction env orch s))"
    and rsk: "\<And>orch s. P orch \<Longrightarrow> P (snd (run_risk_scoring env orch s))"
    and red: "\<And>orch s. P orch \<Longrightarrow> P (snd (run_redline_generation env orch s))"
    and summ: "\<And>orch s. P orch \<Longrightarrow> P (snd (run_summary_generation env orch s))"
    and aud: "\<And>orch s. P orch \<Longrightarrow> P (snd (run_audit_compilation env orch s))"
    and sav: "\<And>orch s errs. P orch \<Longrightarrow> P (save_partial_results orch s errs)"
    and reset: "P orch \<Longrightarrow> P (orch\<lparr>agent_traces := []\<rparr>)"
    and P: "P orch"
  shows "P (snd (process_contract env orch inp uid sid_opt))"
proof -
  define o0 where "o0 = orch\<lparr>agent_traces := []\<rparr>"
  have fail: "P (snd (processing_failed env x so errs e :: (exn + process_result) \<times> orchestrator))"
    if "P x" for x so errs e
    using that sav by (simp add: processing_failed_def split: option.splits)
  have p0: "P o0" using reset P by (simp add: o0_def)
  obtain r1 o1 where i: "run_ingestion env o0 inp sid_opt = (r1, o1)" by force
  have p1: "P o1" using ing[OF p0, of inp sid_opt] i by simp
  show ?thesis
  proof (cases r1)
    case (Inl e)
    then show ?thesis using i fail[OF p1] by (simp add: process_contract_def o0_def)
  next
    case (Inr ingestion)
    define sid where "sid = (case sid_opt of None \<Rightarrow> ir_session_id ingestion | Some g \<Rightarrow> g)"
    obtain r2 o2 where e: "run_extraction env o1 sid = (r2, o2)" by force
    have p2: "P o2" using ext[OF p1, of sid] e by simp
    obtain r3 o3 where k: "run_risk_scoring env o2 sid = (r3, o3)" by force
    have p3: "P o3" using rsk[OF p2, of sid] k by simp
    obtain r4 o4 where l: "run_redline_generation env o3 sid = (r4, o4)" by force
    have p4: "P o4" using red[OF p3, of sid] l by simp
    obtain r5 o5 where m: "run_summary_generation env o4 sid = (r5, o5)" by force
    have p5: "P o5" using summ[OF p4, of sid] m by simp
    obtain r6 o6 where a: "run_audit_compilation env o5 sid = (r6, o6)" by force
    have p6: "P o6" using aud[OF p5, of sid] a by simp
    show ?thesis
      using Inr i e k l m a fail[OF p2] fail[OF p3] fail[OF p4] fail[OF p5] fail[OF p6] p6
      by (simp add: process_contract_def o0_def[symmetric] sid_def[symmetric] Let_def
          split: sum.splits)
  qed
qed


subsection \<open>Stage order\<close>

text \<open>
  The entry point keeps this much of the stage order, in every row of the store: risk
  assessments (slot 2) are never populated while the clauses (slot 1) are absent,
  redline proposals (slot 3) never while the risk assessments (slot 2) are absent, and a
  negotiation summary (slot 4) never while the risk assessments are absent. If the store
  is in that order before a call of \<open>process_contract\<close>, it is in that order after it,
  whatever the collaborators do and whether the call returns or raises.
\<close>

lemma stage_order_preserved:
  "store_in_order (memory_bank orch) \<Longrightarrow>
   store_in_order (memory_bank (snd (process_contract env orch inp uid sid_opt)))"
  by (rule process_contract_preserves[where P="\<lambda>x. store_in_order (memory_bank x)"])
     (simp_all add: ingestion_in_order extraction_in_order risk_scoring_in_order
        redline_generation_in_order summary_generation_in_order audit_compilation_in_order
        save_partial_results_def set_custom_state_def store_in_order_set_state)

text \<open>
  Claim C8, evaluated where the code departs from it. The extraction finds no clause in
  the contract. No stage fails: scoring, redlining and the summary return early for lack
  of data, the audit stage compiles a bundle and stores it, and the call returns with
  status \<open>completed\<close>. The row of the session then holds an audit bundle (slot 5) and
  no negotiation summary (slot 4), and the session can no longer be read: the stored
  bundle does not decode, because its summary is \<^verbatim>\<open>null\<close>.
\<close>

theorem audit_bundle_stored_without_summary:
  "map_option pr_status
     (returned (process_contract env_no_clauses (orch0 True) f0 ''u'' (Some ''s1'')))
     = Some ''completed''
   \<and> map_option audit_without_summary
     (find_row
        (memory_bank (snd (process_contract env_no_clauses (orch0 True) f0 ''u'' (Some ''s1''))))
        ''s1'') = Some True
   \<and> map_sum exn_class id
     (get_session
        (memory_bank (snd (process_contract env_no_clauses (orch0 True) f0 ''u'' (Some ''s1''))))
        ''s1'') = Inl SessionError"
  by code_simp


subsection \<open>Writing a slot twice\<close>

lemma read_after_write:
  assumes "get_session db sid = Inr (Some s)" and "session_id s' = sid"
    and "audit_bundle s' = audit_bundle s"
  shows "get_session (set_state (update_session db s') sid k v) sid = Inr (Some s')"
  using assms decode_row_slot[of s s']
  by (simp add: get_session_row find_row_update_session)

lemma get_session_id: "get_session db sid = Inr (Some s) \<Longrightarrow> session_id s = sid"
  by (auto simp: get_session_row dest: find_row_id)

lemma read_after_bundle_write:
  assumes "get_session db sid = Inr (Some s)"
  shows "get_session (set_state (update_session db (s\<lparr>audit_bundle := Some bnd\<rparr>)) sid k v) sid
           = (if ab_negotiation_summary bnd = None
              then Inl (Exn SessionError (''Session retrieval failed: '' @
                     ''Expected `object`, got `null` - at `$.negotiation_summary`''))
              else Inr (Some (s\<lparr>audit_bundle := Some bnd\<rparr>)))"
proof -
  have r: "find_row db sid = Some s" using assms by (simp add: get_session_row)
  have i: "session_id s = sid" using find_row_id[OF r] .
  have "find_row (set_state (update_session db (s\<lparr>audit_bundle := Some bnd\<rparr>)) sid k v) sid
          = Some (s\<lparr>audit_bundle := Some bnd\<rparr>)"
    using r i by (simp add: find_row_update_session)
  then show ?thesis by (simp add: get_session_def decode_row_def)
qed

text \<open>
  Claim C7, as amended. A \<^verbatim>\<open>store_*\<close> method of the memory bank that succeeds
  overwrites the slot: reading the slot back gives the value just written, whatever the
  slot held before, for the clauses, the risk assessments, the redline proposals and the
  negotiation summary, and for an audit bundle that has a negotiation summary. An audit
  bundle without one is written too, but then nothing of the session can be read back.
  In particular, when the session can be read, writing the clause slot twice and reading
  it gives the value of the second write. (That a run writes each slot once comes from
  the orchestrator's checks before it calls an executor, not from the store.)
\<close>

theorem store_overwrites:
  "(store_clauses db sid cs = Inr db' \<longrightarrow> get_clauses db' sid = Inr cs)
   \<and> (store_risk_assessments db sid ras = Inr db' \<longrightarrow> get_risk_assessments db' sid = Inr ras)
   \<and> (store_redline_proposals db sid rps = Inr db' \<longrightarrow> get_redline_proposals db' sid = Inr rps)
   \<and> (store_negotiation_summary db sid summ = Inr db'
        \<longrightarrow> get_negotiation_summary db' sid = Inr (Some summ))
   \<and> (store_audit_bundle db sid bnd = Inr db' \<and> ab_negotiation_summary bnd \<noteq> None
        \<longrightarrow> get_audit_bundle db' sid = Inr (Some bnd))
   \<and> (store_audit_bundle db sid bnd = Inr db' \<and> ab_negotiation_summary bnd = None
        \<longrightarrow> isl (get_audit_bundle db' sid) \<and> isl (get_clauses db' sid))
   \<and> (get_session db sid = Inr (Some s)
        \<longrightarrow> write_twice_then_read db sid first second = Inr second)"
proof -
  have w: "get_session (set_state (update_session db (s0\<lparr>extracted_clauses := v\<rparr>)) sid k x) sid
             = Inr (Some (s0\<lparr>extracted_clauses := v\<rparr>))"
    if "get_session db sid = Inr (Some s0)" for db s0 v k x
    by (rule read_after_write[OF that]) (use get_session_id[OF that] in simp_all)
  have 1: "store_clauses db sid cs = Inr db' \<longrightarrow> get_clauses db' sid = Inr cs"
    by (auto simp: store_clauses_def get_clauses_def session_or_raise_def w
        split: sum.splits option.splits)
  have 2: "store_risk_assessments db sid ras = Inr db' \<longrightarrow> get_risk_assessments db' sid = Inr ras"
  proof
    assume a: "store_risk_assessments db sid ras = Inr db'"
    then obtain s0 where s0: "get_session db sid = Inr (Some s0)"
      and d: "db' = set_state (update_session db (s0\<lparr>risk_assessments := ras\<rparr>)) sid
                      ''risk_assessments'' (RisksValue ras)"
      by (auto simp: store_risk_assessments_def session_or_raise_def
          split: sum.splits option.splits)
    have "get_session db' sid = Inr (Some (s0\<lparr>risk_assessments := ras\<rparr>))"
      unfolding d by (rule read_after_write[OF s0]) (use get_session_id[OF s0] in simp_all)
    then show "get_risk_assessments db' sid = Inr ras"
      by (simp add: get_risk_assessments_def session_or_raise_def)
  qed
  have 3: "store_redline_proposals db sid rps = Inr db' \<longrightarrow> get_redline_proposals db' sid = Inr rps"
  proof
    assume a: "store_redline_proposals db sid rps = Inr db'"
    then obtain s0 where s0: "get_session db sid = Inr (Some s0)"
      and d: "db' = set_state (update_session db (s0\<lparr>redline_proposals := rps\<rparr>)) sid
                      ''redline_proposals'' (ProposalsValue rps)"
      by (auto simp: store_redline_proposals_def session_or_raise_def
          split: sum.splits option.splits)
    have "get_session db' sid = Inr (Some (s0\<lparr>redline_proposals := rps\<rparr>))"
      unfolding d by (rule read_after_write[OF s0]) (use get_session_id[OF s0] in simp_all)
    then show "get_redline_proposals db' sid = Inr rps"
      by (simp add: get_redline_proposals_def session_or_raise_def)
  qed
  have 4: "store_negotiation_summary db sid summ = Inr db'
        \<longrightarrow> get_negotiation_summary db' sid = Inr (Some summ)"
  proof
    assume a: "store_negotiation_summary db sid summ = Inr db'"
    then obtain s0 where s0: "get_session db sid = Inr (Some s0)"
      and d: "db' = set_state (update_session db (s0\<lparr>negotiation_summary := Some summ\<rparr>)) sid
                      ''negotiation_summary'' (SummaryValue summ)"
      by (auto simp: store_negotiation_summary_def session_or_raise_def
          split: sum.splits option.splits)
    have "get_session db' sid = Inr (Some (s0\<lparr>negotiation_summary := Some summ\<rparr>))"
      unfolding d by (rule read_after_write[OF s0]) (use get_session_id[OF s0] in simp_all)
    then show "get_negotiation_summary db' sid = Inr (Some summ)"
      by (simp add: get_negotiation_summary_def session_or_raise_def)
  qed
  have b: "get_session db' sid
             = (if ab_negotiation_summary bnd = None
                then Inl (Exn SessionError (''Session retrieval failed: '' @
                       ''Expected `object`, got `null` - at `$.negotiation_summary`''))
                else Inr (Some (s0\<lparr>audit_bundle := Some bnd\<rparr>)))"
    if "store_audit_bundle db sid bnd = Inr db'" and "get_session db sid = Inr (Some s0)" for s0
    using that read_after_bundle_write[OF that(2), of bnd]
    by (auto simp: store_audit_bundle_def session_or_raise_def split: sum.splits option.splits)
  have ex: "\<exists>s0. get_session db sid = Inr (Some s0)" if "store_audit_bundle db sid bnd = Inr db'"
    using that
    by (auto simp: store_audit_bundle_def session_or_raise_def split: sum.splits option.splits)
  have 5: "store_audit_bundle db sid bnd = Inr db' \<and> ab_negotiation_summary bnd \<noteq> None
        \<longrightarrow> get_audit_bundle db' sid = Inr (Some bnd)"
    using b ex by (auto simp: get_audit_bundle_def session_or_raise_def)
  have 6: "store_audit_bundle db sid bnd = Inr db' \<and> ab_negotiation_summary bnd = None
        \<longrightarrow> isl (get_audit_bundle db' sid) \<and> isl (get_clauses db' sid)"
    using b ex by (auto simp: get_audit_bundle_def get_clauses_def session_or_raise_def)
  have 7: "get_session db sid = Inr (Some s)
        \<longrightarrow> write_twice_then_read db sid first second = Inr second"
  proof
    assume g: "get_session db sid = Inr (Some s)"
    define d1 where "d1 = set_state (update_session db (s\<lparr>extracted_clauses := first\<rparr>)) sid
                            ''extracted_clauses'' (ClausesValue first)"
    have g1: "get_session d1 sid = Inr (Some (s\<lparr>extracted_clauses := first\<rparr>))"
      unfolding d1_def by (rule w[OF g])
    have g2: "get_session (set_state (update_session d1 (s\<lparr>extracted_clauses := second\<rparr>)) sid
                ''extracted_clauses'' (ClausesValue second)) sid
              = Inr (Some (s\<lparr>extracted_clauses := second\<rparr>))"
      using w[OF g1, of second "''extracted_clauses''" "ClausesValue second"] by simp
    show "write_twice_then_read db sid first second = Inr second"
      using g g1 g2
      by (simp add: write_twice_then_read_def store_clauses_def get_clauses_def
          session_or_raise_def d1_def[symmetric])
  qed
  show ?thesis using 1 2 3 4 5 6 7 by blast
qed

theorem store_overwrites_witness:
  "get_session db1 ''s1'' = Inr (Some stored_session)
   \<and> write_twice_then_read db1 ''s1'' [c1] [c2] = Inr [c2]
   \<and> \<not> isl (store_audit_bundle db1 ''s1'' b1)
   \<and> ab_negotiation_summary b1 \<noteq> None
   \<and> get_audit_bundle (projr (store_audit_bundle db1 ''s1'' b1)) ''s1'' = Inr (Some b1)"
proof -
  have h: "get_session db1 ''s1'' = Inr (Some stored_session)" by code_simp
  have i: "\<not> isl (store_audit_bundle db1 ''s1'' b1)" by code_simp
  have n: "ab_negotiation_summary b1 \<noteq> None" by code_simp
  have e: "store_audit_bundle db1 ''s1'' b1 = Inr (projr (store_audit_bundle db1 ''s1'' b1))"
    using i by simp
  show ?thesis
    using h i n e
      store_overwrites[where db=db1 and sid="''s1''" and first="[c1]" and second="[c2]"
        and s=stored_session and bnd=b1 and db'="projr (store_audit_bundle db1 ''s1'' b1)"]
    by simp
qed

text \<open>
  The claim as stated fails: after \<open>[c1]\<close> and then \<open>[c2]\<close> are stored as the clauses
  of session \<open>s1\<close>, the stored clauses are \<open>[c2]\<close>, not \<open>[c1]\<close>.
\<close>

theorem second_write_takes_effect:
  "write_twice_then_read db1 ''s1'' [c1] [c2] = Inr [c2]
   \<and> write_twice_then_read db1 ''s1'' [c1] [c2] \<noteq> Inr [c1]"
  by code_simp

subsection \<open>Status and error list of a degraded run\<close>

text \<open>
  Claim C3, evaluated where the code departs from it. The extraction executor raises,
  degradation is enabled, and \<open>process_contract\<close> returns normally: the trace of the
  extraction stage has \<open>success = False\<close> and the extraction result carries the error
  message, yet the returned status is \<open>completed\<close> and the returned error list is
  empty.
\<close>

theorem status_completed_despite_failure:
  "map_option pr_status
     (returned (process_contract env_extraction_fails (orch0 True) f0 ''u'' (Some ''s1'')))
     = Some ''completed''
   \<and> map_option pr_errors
     (returned (process_contract env_extraction_fails (orch0 True) f0 ''u'' (Some ''s1'')))
     = Some []
   \<and> map_option (trace_flags \<circ> pr_agent_traces)
     (returned (process_contract env_extraction_fails (orch0 True) f0 ''u'' (Some ''s1'')))
     = Some [(''IngestionAgent'', True), (''ClauseExtractionAgent'', False),
             (''ComplianceAuditAgent'', True)]
   \<and> map_option (er_error \<circ> pr_extraction)
     (returned (process_contract env_extraction_fails (orch0 True) f0 ''u'' (Some ''s1'')))
     = Some (Some ''boom'')"
  by code_simp

text \<open>
  Claim C5, evaluated where the code departs from it. The summary executor raises and
  degradation is enabled: the returned trace list has six records, one for each stage
  that ran, the one of the summary stage with \<open>success = False\<close>, and the returned error
  list has no entry to correspond to it.
\<close>

theorem failed_trace_without_error_entry:
  "map_option (trace_flags \<circ> pr_agent_traces)
     (returned (process_contract env_summary_fails (orch0 True) f0 ''u'' (Some ''s1'')))
     = Some [(''IngestionAgent'', True), (''ClauseExtractionAgent'', True),
             (''RiskScoringAgent'', True), (''RedlineSuggestionAgent'', True),
             (''NegotiationSummaryAgent'', False), (''ComplianceAuditAgent'', True)]
   \<and> map_option (length \<circ> pr_errors)
     (returned (process_contract env_summary_fails (orch0 True) f0 ''u'' (Some ''s1'')))
     = Some 0"
  by code_simp

subsection \<open>Calling the entry point on a stored run\<close>

text \<open>
  Claim C1, evaluated where the code departs from it. The store holds session \<open>s1\<close>
  with its normalized text (slot 0) and its clauses (slot 1). \<open>process_contract\<close> is
  called with that session id: the early return of the ingestion stage reads an
  attribute the metadata does not have, the exception is swallowed, the ingestion
  executor is invoked again, the insertion of the session fails on the primary key, a
  failed trace is recorded for the ingestion stage, and the call raises. No later stage
  runs.
\<close>

theorem resume_reruns_ingestion:
  "raised (process_contract env0 (orch1 True) f0 ''u'' (Some ''s1''))
     = Some (Exn ContractCopilotError
         (''Contract processing failed: Ingestion failed: Session creation failed: '' @
          ''UNIQUE constraint failed: sessions.session_id''))
   \<and> invocations (snd (process_contract env0 (orch1 True) f0 ''u'' (Some ''s1'')))
     = [ProcessFileCall]
   \<and> trace_flags (agent_traces (snd (process_contract env0 (orch1 True) f0 ''u'' (Some ''s1''))))
     = [(''IngestionAgent'', False)]"
  by code_simp

subsection \<open>Degradation\<close>

text \<open>
  Claim C2 as stated fails at stage 0: with degradation enabled, a failure of the
  ingestion executor makes \<open>process_contract\<close> raise.
\<close>

theorem ingestion_failure_aborts_despite_degradation:
  "enable_graceful_degradation (orch0 True)
   \<and> raised (process_contract env_ingestion_fails (orch0 True) f0 ''u'' (Some ''s1''))
     = Some (Exn ContractCopilotError ''Contract processing failed: Ingestion failed: boom'')"
  by code_simp

lemma flag_record_trace [simp]:
  "enable_graceful_degradation (record_trace orch n ok err) = enable_graceful_degradation orch"
  by (simp add: record_trace_def)

lemma flag_invoke [simp]:
  "enable_graceful_degradation (invoke orch c) = enable_graceful_degradation orch"
  by (simp add: invoke_def)

lemma ingestion_try_flag:
  "enable_graceful_degradation (snd (ingestion_try env orch inp sid_opt))
     = enable_graceful_degradation orch"
  by (simp add: ingestion_try_def Let_def split: sum.splits prod.splits option.splits)

lemma run_ingestion_flag:
  "enable_graceful_degradation (snd (run_ingestion env orch inp sid_opt))
     = enable_graceful_degradation orch"
  using ingestion_try_flag[of env orch inp sid_opt]
  by (cases "ingestion_try env orch inp sid_opt") (auto simp: run_ingestion_def Let_def split: sum.splits)

lemma extraction_try_flag:
  "enable_graceful_degradation (snd (extraction_try env orch sid)) = enable_graceful_degradation orch"
  by (simp add: extraction_try_def Let_def split: sum.splits prod.splits option.splits)

lemma run_extraction_flag:
  "enable_graceful_degradation (snd (run_extraction env orch sid)) = enable_graceful_degradation orch"
  using extraction_try_flag[of env orch sid]
  by (cases "extraction_try env orch sid")
     (auto simp: run_extraction_def Let_def split: sum.splits option.splits)

lemma run_extraction_degrades:
  assumes "enable_graceful_degradation orch"
    and "failure_logged env ''ClauseExtractionAgent'' (fst (extraction_try env orch sid))"
  shows "fst (run_extraction env orch sid)
           = Inr (case fst (extraction_try env orch sid) of
                    Inr result \<Rightarrow> result
                  | Inl e \<Rightarrow> \<lparr>er_clauses = [], er_clause_count = 0, er_status = None,
                        er_error = Some (str e)\<rparr>)"
  using assms extraction_try_flag[of env orch sid]
  by (cases "extraction_try env orch sid")
     (auto simp: run_extraction_def failure_logged_def Let_def split: sum.splits option.splits)

lemma risk_scoring_try_flag:
  "enable_graceful_degradation (snd (risk_scoring_try env orch sid)) = enable_graceful_degradation orch"
  by (simp add: risk_scoring_try_def Let_def split: sum.splits prod.splits option.splits)

lemma run_risk_scoring_flag:
  "enable_graceful_degradation (snd (run_risk_scoring env orch sid)) = enable_graceful_degradation orch"
  using risk_scoring_try_flag[of env orch sid]
  by (cases "risk_scoring_try env orch sid")
     (auto simp: run_risk_scoring_def Let_def split: sum.splits option.splits)

lemma run_risk_scoring_degrades:
  assumes "enable_graceful_degradation orch"
    and "failure_logged env ''RiskScoringAgent'' (fst (risk_scoring_try env orch sid))"
  shows "fst (run_risk_scoring env orch sid)
           = Inr (case fst (risk_scoring_try env orch sid) of
                    Inr result \<Rightarrow> result
                  | Inl e \<Rightarrow> \<lparr>rk_risk_assessments = [], rk_high_risk_count = Some 0,
                        rk_status = None, rk_warning = None, rk_error = Some (str e)\<rparr>)"
  using assms risk_scoring_try_flag[of env orch sid]
  by (cases "risk_scoring_try env orch sid")
     (auto simp: run_risk_scoring_def failure_logged_def Let_def split: sum.splits option.splits)

lemma redline_generation_try_flag:
  "enable_graceful_degradation (snd (redline_generation_try env orch sid)) = enable_graceful_degradation orch"
  by (simp add: redline_generation_try_def Let_def split: sum.splits prod.splits option.splits)

lemma run_redline_generation_flag:
  "enable_graceful_degradation (snd (run_redline_generation env orch sid)) = enable_graceful_degradation orch"
  using redline_generation_try_flag[of env orch sid]
  by (cases "redline_generation_try env orch sid")
     (auto simp: run_redline_generation_def Let_def split: sum.splits option.splits)

lemma run_redline_generation_degrades:
  assumes "enable_graceful_degradation orch"
    and "failure_logged env ''RedlineSuggestionAgent'' (fst (redline_generation_try env orch sid))"
  shows "fst (run_redline_generation env orch sid)
           = Inr (case fst (redline_generation_try env orch sid) of
                    Inr result \<Rightarrow> result
                  | Inl e \<Rightarrow> \<lparr>rl_redline_proposals = [], rl_proposal_count = 0,
                        rl_high_risk_redlines = None, rl_medium_risk_redlines = None,
                        rl_status = None, rl_warning = None, rl_error = Some (str e)\<rparr>)"
  using assms redline_generation_try_flag[of env orch sid]
  by (cases "redline_generation_try env orch sid")
     (auto simp: run_redline_generation_def failure_logged_def Let_def split: sum.splits option.splits)

lemma summary_generation_try_flag:
  "enable_graceful_degradation (snd (summary_generation_try env orch sid)) = enable_graceful_degradation orch"
  by (simp add: summary_generation_try_def Let_def split: sum.splits prod.splits option.splits)

lemma run_summary_generation_flag:
  "enable_graceful_degradation (snd (run_summary_generation env orch sid)) = enable_graceful_degradation orch"
  using summary_generation_try_flag[of env orch sid]
  by (cases "summary_generation_try env orch sid")
     (auto simp: run_summary_generation_def Let_def split: sum.splits option.splits)

lemma run_summary_generation_degrades:
  assumes "enable_graceful_degradation orch"
    and "failure_logged env ''NegotiationSummaryAgent'' (fst (summary_generation_try env orch sid))"
  shows "fst (run_summary_generation env orch sid)
           = Inr (case fst (summary_generation_try env orch sid) of
                    Inr result \<Rightarrow> result
                  | Inl e \<Rightarrow> \<lparr>sm_negotiation_summary = None, sm_status = None, sm_warning = None,
                        sm_error = Some (str e)\<rparr>)"
  using assms summary_generation_try_flag[of env orch sid]
  by (cases "summary_generation_try env orch sid")
     (auto simp: run_summary_generation_def failure_logged_def Let_def split: sum.splits option.splits)

lemma audit_compilation_try_flag:
  "enable_graceful_degradation (snd (audit_compilation_try env orch sid)) = enable_graceful_degradation orch"
  by (simp add: audit_compilation_try_def Let_def split: sum.splits prod.splits option.splits)

lemma run_audit_compilation_flag:
  "enable_graceful_degradation (snd (run_audit_compilation env orch sid)) = enable_graceful_degradation orch"
  using audit_compilation_try_flag[of env orch sid]
  by (cases "audit_compilation_try env orch sid")
     (auto simp: run_audit_compilation_def Let_def split: sum.splits option.splits)

lemma run_audit_compilation_degrades:
  assumes "enable_graceful_degradation orch"
    and "failure_logged env ''ComplianceAuditAgent'' (fst (audit_compilation_try env orch sid))"
  shows "fst (run_audit_compilation env orch sid)
           = Inr (case fst (audit_compilation_try env orch sid) of
                    Inr result \<Rightarrow> result
                  | Inl e \<Rightarrow> \<lparr>au_audit_bundle = None, au_json_export = None,
                        au_markdown_export = None, au_status = None,
                        au_error = Some (str e)\<rparr>)"
  using assms audit_compilation_try_flag[of env orch sid]
  by (cases "audit_compilation_try env orch sid")
     (auto simp: run_audit_compilation_def failure_logged_def Let_def split: sum.splits option.splits)

lemma resume_ingestion_None: "resume_ingestion env db sid = None"
  by (simp add: resume_ingestion_def page_count_attribute_def split: sum.splits option.splits)

lemma ingestion_session_id:
  assumes "run_ingestion env orch inp sid_opt = (Inr ingestion, o1)"
  shows "ir_session_id ingestion = run_id env sid_opt"
  using assms
  by (auto simp: run_ingestion_def ingestion_try_def resume_ingestion_None run_id_def Let_def
      split: sum.splits option.splits if_splits prod.splits)

lemma ingestion_try_fails:
  assumes "fst (ingestion_try env orch inp sid_opt) = Inl e"
  shows "run_ingestion env orch inp sid_opt
           = (Inl (Exn DocumentParsingError (''Ingestion failed: '' @ str e)),
              record_trace (invoke orch ProcessFileCall) ''IngestionAgent'' False (Some (str e)))"
  using assms
  by (auto simp: run_ingestion_def ingestion_try_def resume_ingestion_None Let_def
      split: sum.splits option.splits if_splits prod.splits)

lemma processing_failed_keeps:
  "agent_traces (snd (processing_failed env orch so errs e :: (exn + process_result) \<times> orchestrator))
     = agent_traces orch
   \<and> invocations (snd (processing_failed env orch so errs e :: (exn + process_result) \<times> orchestrator))
     = invocations orch
   \<and> sessions (memory_bank (snd (processing_failed env orch so errs e
           :: (exn + process_result) \<times> orchestrator)))
     = sessions (memory_bank orch)
   \<and> isl (fst (processing_failed env orch so errs e :: (exn + process_result) \<times> orchestrator))"
  by (simp add: processing_failed_def save_partial_results_def set_custom_state_def set_state_def
      split: option.splits)

lemma process_contract_after_ingestion:
  assumes i: "\<not> isl (fst (run_ingestion env (orch\<lparr>agent_traces := []\<rparr>) inp sid_opt))"
    and e: "fst (run_extraction env (after_ingestion env orch inp sid_opt) (run_id env sid_opt))
              = Inr extraction"
    and k: "fst (run_risk_scoring env (after_extraction env orch inp sid_opt) (run_id env sid_opt))
              = Inr risk"
    and l: "fst (run_redline_generation env (after_risk_scoring env orch inp sid_opt)
                   (run_id env sid_opt)) = Inr redline"
    and m: "fst (run_summary_generation env (after_redline_generation env orch inp sid_opt)
                   (run_id env sid_opt)) = Inr summary"
    and a: "fst (run_audit_compilation env (after_summary_generation env orch inp sid_opt)
                   (run_id env sid_opt)) = Inr audit"
  shows "\<exists>r. process_contract env orch inp uid sid_opt
                = (Inr r, snd (run_audit_compilation env
                                 (after_summary_generation env orch inp sid_opt)
                                 (run_id env sid_opt)))
           \<and> pr_session_id r = run_id env sid_opt
           \<and> pr_extraction r = extraction \<and> pr_risk_scoring r = risk \<and> pr_redline r = redline
           \<and> pr_summary r = summary \<and> pr_audit r = audit
           \<and> pr_agent_traces r
               = agent_traces (snd (run_audit_compilation env
                                      (after_summary_generation env orch inp sid_opt)
                                      (run_id env sid_opt)))"
proof -
  let ?sid = "run_id env sid_opt"
  obtain ingestion where i': "run_ingestion env (orch\<lparr>agent_traces := []\<rparr>) inp sid_opt
      = (Inr ingestion, after_ingestion env orch inp sid_opt)"
    using i by (cases "run_ingestion env (orch\<lparr>agent_traces := []\<rparr>) inp sid_opt";
        cases "fst (run_ingestion env (orch\<lparr>agent_traces := []\<rparr>) inp sid_opt)")
      (auto simp: after_ingestion_def)
  have sid: "(case sid_opt of None \<Rightarrow> ir_session_id ingestion | Some given \<Rightarrow> given) = ?sid"
    using ingestion_session_id[OF i'] by (simp add: run_id_def split: option.splits)
  have e': "run_extraction env (after_ingestion env orch inp sid_opt) ?sid
              = (Inr extraction, after_extraction env orch inp sid_opt)"
    using e by (simp add: after_extraction_def prod_eq_iff)
  have k': "run_risk_scoring env (after_extraction env orch inp sid_opt) ?sid
              = (Inr risk, after_risk_scoring env orch inp sid_opt)"
    using k by (simp add: after_risk_scoring_def prod_eq_iff)
  have l': "run_redline_generation env (after_risk_scoring env orch inp sid_opt) ?sid
              = (Inr redline, after_redline_generation env orch inp sid_opt)"
    using l by (simp add: after_redline_generation_def prod_eq_iff)
  have m': "run_summary_generation env (after_redline_generation env orch inp sid_opt) ?sid
              = (Inr summary, after_summary_generation env orch inp sid_opt)"
    using m by (simp add: after_summary_generation_def prod_eq_iff)
  define o6 where "o6 = snd (run_audit_compilation env
                                (after_summary_generation env orch inp sid_opt) ?sid)"
  have a': "run_audit_compilation env (after_summary_generation env orch inp sid_opt) ?sid
              = (Inr audit, o6)"
    using a by (simp add: prod_eq_iff o6_def)
  show ?thesis
    unfolding o6_def[symmetric]
    using i' e' k' l' m' a' sid
    by (simp add: process_contract_def Let_def)
qed

text \<open>
  Claim C2, as amended. Graceful degradation is enabled. A failure of the ingestion
  stage (stage 0) is not degraded: \<open>process_contract\<close> returns no result, no executor
  after the file reader is invoked, and the one trace is the failed trace of the
  ingestion stage. Once the ingestion stage has returned, the run goes through the
  stages 1 to 5 in order and \<open>process_contract\<close> returns a result, provided the error
  log call of the handler of each stage that fails returns: each stage runs on the state
  its predecessor left, and its entry in the result is what its \<^verbatim>\<open>try\<close> block
  returned or, when that raised, the stage's empty default carrying the message of the
  exception.
\<close>

theorem degradation_after_ingestion:
  assumes "enable_graceful_degradation orch"
  shows "(\<forall>e. fst (ingestion_try env (orch\<lparr>agent_traces := []\<rparr>) inp sid_opt) = Inl e \<longrightarrow>
            returned (process_contract env orch inp uid sid_opt) = None
            \<and> invocations (snd (process_contract env orch inp uid sid_opt))
                = invocations orch @ [ProcessFileCall]
            \<and> agent_traces (snd (process_contract env orch inp uid sid_opt))
                = [\<lparr>agent_name = ''IngestionAgent'', success = False,
                    error_message = Some (str e)\<rparr>])
       \<and> (\<not> isl (fst (ingestion_try env (orch\<lparr>agent_traces := []\<rparr>) inp sid_opt))
            \<and> failure_logged env ''ClauseExtractionAgent''
                (fst (extraction_try env (after_ingestion env orch inp sid_opt) (run_id env sid_opt)))
            \<and> failure_logged env ''RiskScoringAgent''
                (fst (risk_scoring_try env (after_extraction env orch inp sid_opt) (run_id env sid_opt)))
            \<and> failure_logged env ''RedlineSuggestionAgent''
                (fst (redline_generation_try env (after_risk_scoring env orch inp sid_opt) (run_id env sid_opt)))
            \<and> failure_logged env ''NegotiationSummaryAgent''
                (fst (summary_generation_try env (after_redline_generation env orch inp sid_opt) (run_id env sid_opt)))
            \<and> failure_logged env ''ComplianceAuditAgent''
                (fst (audit_compilation_try env (after_summary_generation env orch inp sid_opt) (run_id env sid_opt))) \<longrightarrow>
            (\<exists>r. returned (process_contract env orch inp uid sid_opt) = Some r
                \<and> pr_extraction r
                   = (case fst (extraction_try env (after_ingestion env orch inp sid_opt)
                                  (run_id env sid_opt)) of
                        Inr result \<Rightarrow> result
                      | Inl e \<Rightarrow> \<lparr>er_clauses = [], er_clause_count = 0, er_status = None,
                      er_error = Some (str e)\<rparr>)
                \<and> pr_risk_scoring r
                   = (case fst (risk_scoring_try env (after_extraction env orch inp sid_opt)
                                  (run_id env sid_opt)) of
                        Inr result \<Rightarrow> result
                      | Inl e \<Rightarrow> \<lparr>rk_risk_assessments = [], rk_high_risk_count = Some 0,
                      rk_status = None, rk_warning = None, rk_error = Some (str e)\<rparr>)
                \<and> pr_redline r
                   = (case fst (redline_generation_try env (after_risk_scoring env orch inp sid_opt)
                                  (run_id env sid_opt)) of
                        Inr result \<Rightarrow> result
                      | Inl e \<Rightarrow> \<lparr>rl_redline_proposals = [], rl_proposal_count = 0,
                      rl_high_risk_redlines = None, rl_medium_risk_redlines = None,
                      rl_status = None, rl_warning = None, rl_error = Some (str e)\<rparr>)
                \<and> pr_summary r
                   = (case fst (summary_generation_try env (after_redline_generation env orch inp sid_opt)
                                  (run_id env sid_opt)) of
                        Inr result \<Rightarrow> result
                      | Inl e \<Rightarrow> \<lparr>sm_negotiation_summary = None, sm_status = None, sm_warning = None,
                      sm_error = Some (str e)\<rparr>)
                \<and> pr_audit r
                   = (case fst (audit_compilation_try env (after_summary_generation env orch inp sid_opt)
                                  (run_id env sid_opt)) of
                        Inr result \<Rightarrow> result
                      | Inl e \<Rightarrow> \<lparr>au_audit_bundle = None, au_json_export = None,
                      au_markdown_export = None, au_status = None,
                      au_error = Some (str e)\<rparr>)))"
proof -
  let ?P = "process_contract env orch inp uid sid_opt"
  let ?o0 = "orch\<lparr>agent_traces := []\<rparr>"
  let ?sid = "run_id env sid_opt"
  have part0: "returned ?P = None
            \<and> invocations (snd ?P) = invocations orch @ [ProcessFileCall]
            \<and> agent_traces (snd ?P)
                = [\<lparr>agent_name = ''IngestionAgent'', success = False,
                    error_message = Some (str e)\<rparr>]"
    if "fst (ingestion_try env ?o0 inp sid_opt) = Inl e" for e
    using ingestion_try_fails[OF that]
      processing_failed_keeps[of env
        "record_trace (invoke ?o0 ProcessFileCall) ''IngestionAgent'' False (Some (str e))"
        sid_opt "[]" "Exn DocumentParsingError (''Ingestion failed: '' @ str e)"]
    by (auto simp: process_contract_def returned_def record_trace_def invoke_def
        split: sum.splits)
  have part1: "\<exists>r. returned ?P = Some r
                \<and> pr_extraction r
                   = (case fst (extraction_try env (after_ingestion env orch inp sid_opt)
                                  (run_id env sid_opt)) of
                        Inr result \<Rightarrow> result
                      | Inl e \<Rightarrow> \<lparr>er_clauses = [], er_clause_count = 0, er_status = None,
                      er_error = Some (str e)\<rparr>)
                \<and> pr_risk_scoring r
                   = (case fst (risk_scoring_try env (after_extraction env orch inp sid_opt)
                                  (run_id env sid_opt)) of
                        Inr result \<Rightarrow> result
                      | Inl e \<Rightarrow> \<lparr>rk_risk_assessments = [], rk_high_risk_count = Some 0,
                      rk_status = None, rk_warning = None, rk_error = Some (str e)\<rparr>)
                \<and> pr_redline r
                   = (case fst (redline_generation_try env (after_risk_scoring env orch inp sid_opt)
                                  (run_id env sid_opt)) of
                        Inr result \<Rightarrow> result
                      | Inl e \<Rightarrow> \<lparr>rl_redline_proposals = [], rl_proposal_count = 0,
                      rl_high_risk_redlines = None, rl_medium_risk_redlines = None,
                      rl_status = None, rl_warning = None, rl_error = Some (str e)\<rparr>)
                \<and> pr_summary r
                   = (case fst (summary_generation_try env (after_redline_generation env orch inp sid_opt)
                                  (run_id env sid_opt)) of
                        Inr result \<Rightarrow> result
                      | Inl e \<Rightarrow> \<lparr>sm_negotiation_summary = None, sm_status = None, sm_warning = None,
                      sm_error = Some (str e)\<rparr>)
                \<and> pr_audit r
                   = (case fst (audit_compilation_try env (after_summary_generation env orch inp sid_opt)
                                  (run_id env sid_opt)) of
                        Inr result \<Rightarrow> result
                      | Inl e \<Rightarrow> \<lparr>au_audit_bundle = None, au_json_export = None,
                      au_markdown_export = None, au_status = None,
                      au_error = Some (str e)\<rparr>)"
    if i: "\<not> isl (fst (ingestion_try env ?o0 inp sid_opt))"
      and h1: "failure_logged env ''ClauseExtractionAgent'' (fst (extraction_try env (after_ingestion env orch inp sid_opt) (run_id env sid_opt)))"
      and h2: "failure_logged env ''RiskScoringAgent'' (fst (risk_scoring_try env (after_extraction env orch inp sid_opt) (run_id env sid_opt)))"
      and h3: "failure_logged env ''RedlineSuggestionAgent'' (fst (redline_generation_try env (after_risk_scoring env orch inp sid_opt) (run_id env sid_opt)))"
      and h4: "failure_logged env ''NegotiationSummaryAgent'' (fst (summary_generation_try env (after_redline_generation env orch inp sid_opt) (run_id env sid_opt)))"
      and h5: "failure_logged env ''ComplianceAuditAgent'' (fst (audit_compilation_try env (after_summary_generation env orch inp sid_opt) (run_id env sid_opt)))"
  proof -
    have i': "\<not> isl (fst (run_ingestion env ?o0 inp sid_opt))"
      using i by (cases "ingestion_try env ?o0 inp sid_opt")
        (auto simp: run_ingestion_def split: sum.splits)
    have d1: "enable_graceful_degradation (after_ingestion env orch inp sid_opt)"
      using run_ingestion_flag[of env ?o0 inp sid_opt] assms by (simp add: after_ingestion_def)
    have d2: "enable_graceful_degradation (after_extraction env orch inp sid_opt)"
      using run_extraction_flag d1 by (simp add: after_extraction_def)
    have d3: "enable_graceful_degradation (after_risk_scoring env orch inp sid_opt)"
      using run_risk_scoring_flag d2 by (simp add: after_risk_scoring_def)
    have d4: "enable_graceful_degradation (after_redline_generation env orch inp sid_opt)"
      using run_redline_generation_flag d3 by (simp add: after_redline_generation_def)
    have d5: "enable_graceful_degradation (after_summary_generation env orch inp sid_opt)"
      using run_summary_generation_flag d4 by (simp add: after_summary_generation_def)
    from process_contract_after_ingestion[OF i' run_extraction_degrades[OF d1 h1]
        run_risk_scoring_degrades[OF d2 h2] run_redline_generation_degrades[OF d3 h3]
        run_summary_generation_degrades[OF d4 h4] run_audit_compilation_degrades[OF d5 h5],
        of uid]
    show ?thesis by (auto simp: returned_def)
  qed
  show ?thesis using part0 part1 by blast
qed

theorem degradation_after_ingestion_witness:
  "enable_graceful_degradation (orch0 True)
   \<and> fst (ingestion_try env_ingestion_fails ((orch0 True)\<lparr>agent_traces := []\<rparr>) f0 (Some ''s1''))
       = Inl boom
   \<and> returned (process_contract env_ingestion_fails (orch0 True) f0 ''u'' (Some ''s1'')) = None
   \<and> fst (redline_generation_try env_braces
             (after_risk_scoring env_braces (orch0 True) f0 (Some ''s1''))
             (run_id env_braces (Some ''s1'')))
       = Inl (Exn RedlineGenerationError (''Error in generate_redlines: '' @
                ''Replacement index 2 out of range for positional args tuple''))
   \<and> (\<exists>r. returned (process_contract env_braces (orch0 True) f0 ''u'' (Some ''s1'')) = Some r
          \<and> pr_redline r
              = \<lparr>rl_redline_proposals = [], rl_proposal_count = 0,
                 rl_high_risk_redlines = None, rl_medium_risk_redlines = None,
                 rl_status = None, rl_warning = None,
                 rl_error = Some (''Error in generate_redlines: '' @
                   ''Replacement index 2 out of range for positional args tuple'')\<rparr>)"
proof -
  have d: "enable_graceful_degradation (orch0 True)" by code_simp
  have f: "fst (ingestion_try env_ingestion_fails ((orch0 True)\<lparr>agent_traces := []\<rparr>) f0
                  (Some ''s1'')) = Inl boom"
    by code_simp
  have i: "\<not> isl (fst (ingestion_try env_braces ((orch0 True)\<lparr>agent_traces := []\<rparr>) f0
                         (Some ''s1'')))"
    by code_simp
  have h1: "failure_logged env_braces ''ClauseExtractionAgent''
              (fst (extraction_try env_braces
                      (after_ingestion env_braces (orch0 True) f0 (Some ''s1''))
                      (run_id env_braces (Some ''s1''))))"
    by code_simp
  have h2: "failure_logged env_braces ''RiskScoringAgent''
              (fst (risk_scoring_try env_braces
                      (after_extraction env_braces (orch0 True) f0 (Some ''s1''))
                      (run_id env_braces (Some ''s1''))))"
    by code_simp
  have h3: "failure_logged env_braces ''RedlineSuggestionAgent''
              (fst (redline_generation_try env_braces
                      (after_risk_scoring env_braces (orch0 True) f0 (Some ''s1''))
                      (run_id env_braces (Some ''s1''))))"
    by code_simp
  have h4: "failure_logged env_braces ''NegotiationSummaryAgent''
              (fst (summary_generation_try env_braces
                      (after_redline_generation env_braces (orch0 True) f0 (Some ''s1''))
                      (run_id env_braces (Some ''s1''))))"
    by code_simp
  have h5: "failure_logged env_braces ''ComplianceAuditAgent''
              (fst (audit_compilation_try env_braces
                      (after_summary_generation env_braces (orch0 True) f0 (Some ''s1''))
                      (run_id env_braces (Some ''s1''))))"
    by code_simp
  have v: "fst (redline_generation_try env_braces
             (after_risk_scoring env_braces (orch0 True) f0 (Some ''s1''))
             (run_id env_braces (Some ''s1'')))
       = Inl (Exn RedlineGenerationError (''Error in generate_redlines: '' @
                ''Replacement index 2 out of range for positional args tuple''))"
    by code_simp
  note a = degradation_after_ingestion[OF d, where env=env_ingestion_fails and inp=f0
      and uid="''u''" and sid_opt="Some ''s1''", THEN conjunct1, rule_format, OF f]
  note b = degradation_after_ingestion[OF d, where env=env_braces and inp=f0
      and uid="''u''" and sid_opt="Some ''s1''", THEN conjunct2, rule_format,
      OF conjI[OF i conjI[OF h1 conjI[OF h2 conjI[OF h3 conjI[OF h4 h5]]]]]]
  from b obtain r where
    r: "returned (process_contract env_braces (orch0 True) f0 ''u'' (Some ''s1'')) = Some r"
    and rl: "pr_redline r
               = (case fst (redline_generation_try env_braces
                              (after_risk_scoring env_braces (orch0 True) f0 (Some ''s1''))
                              (run_id env_braces (Some ''s1''))) of
                    Inr result \<Rightarrow> result
                  | Inl e \<Rightarrow> \<lparr>rl_redline_proposals = [], rl_proposal_count = 0,
                        rl_high_risk_redlines = None, rl_medium_risk_redlines = None,
                        rl_status = None, rl_warning = None, rl_error = Some (str e)\<rparr>)"
    by blast
  have "pr_redline r
              = \<lparr>rl_redline_proposals = [], rl_proposal_count = 0,
                 rl_high_risk_redlines = None, rl_medium_risk_redlines = None,
                 rl_status = None, rl_warning = None,
                 rl_error = Some (''Error in generate_redlines: '' @
                   ''Replacement index 2 out of range for positional args tuple'')\<rparr>"
    using rl unfolding v by simp
  then show ?thesis using d f a v r by blast
qed

subsection \<open>Redline proposals\<close>

text \<open>
  Claim C9 as stated fails when the generation for one clause raises on every retry:
  three clauses with a high, a medium and a low finding then give one proposal, not two.
\<close>

theorem one_proposal_when_generation_fails:
  "map_sum exn_class out_proposal_count
     (generate_redlines env_c2_text_fails [c1, c2, c3] [r1, r2, r3] ''s1'') = Inr 1
   \<and> map severity [r1, r2, r3] = [high, medium, low]"
  by code_simp

lemma fold_dict_lookup:
  "fold (\<lambda>x m. m(key x \<mapsto> x)) xs mp k = Some y \<Longrightarrow> mp k = Some y \<or> (key y = k \<and> y \<in> set xs)"
proof (induction xs arbitrary: mp)
  case Nil
  then show ?case by simp
next
  case (Cons a xs)
  from Cons.prems have "fold (\<lambda>x m. m(key x \<mapsto> x)) xs (mp(key a \<mapsto> a)) k = Some y"
    by (simp only: fold_simps comp_apply)
  from Cons.IH[OF this] show ?case by (auto split: if_splits)
qed

lemma dict_of_lookup: "dict_of key xs k = Some y \<Longrightarrow> key y = k \<and> y \<in> set xs"
  using fold_dict_lookup[of key xs Map.empty k y] by (simp add: dict_of_def)

lemma generated_clause_id:
  "generate_redline_for_clause env c ra = Inr p \<Longrightarrow> rp_clause_id p = clause_id c"
  by (auto simp: generate_redline_for_clause_def split: sum.splits prod.splits option.splits)

lemma redline_loop_result:
  "redline_loop env clause_map ras acc = Inr ps \<Longrightarrow>
   ps = acc @ List.map_filter
              (\<lambda>ra. case clause_map (ra_clause_id ra) of
                      None \<Rightarrow> None
                    | Some c \<Rightarrow> (case generate_redline_for_clause env c ra of
                                  Inl e \<Rightarrow> None | Inr p \<Rightarrow> Some p))
              ras"
proof (induction ras arbitrary: acc)
  case Nil
  then show ?case by (simp add: List.map_filter_simps)
next
  case (Cons ra ras)
  show ?case
  proof (cases "clause_map (ra_clause_id ra)")
    case None
    then show ?thesis using Cons by (simp add: List.map_filter_simps)
  next
    case (Some c)
    show ?thesis
    proof (cases "generate_redline_for_clause env c ra")
      case (Inl e)
      then show ?thesis
        using Cons Some by (auto simp: List.map_filter_simps split: option.splits)
    next
      case (Inr redline)
      then show ?thesis
        using Cons.IH[of "acc @ [redline]"] Cons.prems Some
        by (simp add: List.map_filter_simps)
    qed
  qed
qed

lemma redline_loop_returns:
  assumes "\<And>c e. c \<in> ran clause_map \<Longrightarrow>
             logger_call env LogError
               (''Failed to generate redline for clause '' @ clause_id c @ '': '' @ str e)
               [''clause_id''] = None"
  shows "\<not> isl (redline_loop env clause_map ras acc)"
proof (induction ras arbitrary: acc)
  case Nil
  then show ?case by simp
next
  case (Cons ra ras)
  show ?case
  proof (cases "clause_map (ra_clause_id ra)")
    case None
    then show ?thesis using Cons by simp
  next
    case (Some c)
    then have "c \<in> ran clause_map" by (auto simp: ran_def)
    then show ?thesis
      using Cons Some assms[of c] by (auto split: sum.splits option.splits)
  qed
qed

lemma map_filter_length_le: "length (List.map_filter f xs) \<le> length xs"
  by (simp add: List.map_filter_def)

lemma map_filter_source: "y \<in> set (List.map_filter f xs) \<Longrightarrow> \<exists>x \<in> set xs. f x = Some y"
  by (auto simp: List.map_filter_def)

lemma generate_redlines_out:
  assumes "generate_redlines env clauses assessments sid = Inr out"
  shows "out_redline_proposals out
           = List.map_filter
               (\<lambda>ra. case dict_of clause_id clauses (ra_clause_id ra) of
                       None \<Rightarrow> None
                     | Some c \<Rightarrow> (case generate_redline_for_clause env c ra of
                                   Inl e \<Rightarrow> None | Inr p \<Rightarrow> Some p))
               (filter (\<lambda>r. severity r = high \<or> severity r = medium) assessments)
       \<and> out_proposal_count out = length (out_redline_proposals out)"
proof -
  have b: "generate_redlines_body env clauses assessments sid = Inr out"
    using assms by (auto simp: generate_redlines_def handle_errors_def split: sum.splits if_splits)
  show ?thesis
  proof (cases "filter (\<lambda>r. severity r = high \<or> severity r = medium) assessments = []")
    case True
    then show ?thesis
      using b by (auto simp: generate_redlines_body_def Let_def List.map_filter_simps
          split: if_splits)
  next
    case False
    then obtain ps where
      l: "redline_loop env (dict_of clause_id clauses)
            (filter (\<lambda>r. severity r = high \<or> severity r = medium) assessments) [] = Inr ps"
      and o: "out_redline_proposals out = ps" "out_proposal_count out = length ps"
      using b by (auto simp: generate_redlines_body_def Let_def split: if_splits sum.splits)
    from redline_loop_result[OF l] o show ?thesis by simp
  qed
qed

text \<open>
  Claim C9, as amended. When \<open>generate_redlines\<close> returns, its proposals are, in the
  order of the findings, one for each high- or medium-severity finding whose clause is
  among the clauses and whose generation succeeds, and no other: none for a finding of
  low severity, none for a finding whose clause is missing or whose generation raises
  after its retries. The count it reports is the number of proposals, which is at most
  the number of high- and medium-severity findings. With clauses and findings given, it
  does return as long as the error log call for a failed generation returns. When the
  stored clause list or the stored finding list is empty, the orchestrator's stage
  returns an empty proposal list with a warning and leaves the orchestrator as it was:
  no executor call, no trace, no write.
\<close>

theorem redline_proposals_for_risky_findings:
  "(generate_redlines env clauses assessments sid = Inr out \<longrightarrow>
      out_redline_proposals out
        = List.map_filter
            (\<lambda>ra. case dict_of clause_id clauses (ra_clause_id ra) of
                    None \<Rightarrow> None
                  | Some c \<Rightarrow> (case generate_redline_for_clause env c ra of
                                Inl e \<Rightarrow> None | Inr p \<Rightarrow> Some p))
            (filter (\<lambda>r. severity r = high \<or> severity r = medium) assessments)
      \<and> out_proposal_count out = length (out_redline_proposals out)
      \<and> out_proposal_count out
          \<le> length (filter (\<lambda>r. severity r = high \<or> severity r = medium) assessments)
      \<and> (\<forall>p \<in> set (out_redline_proposals out).
            \<exists>ra \<in> set assessments.
              (severity ra = high \<or> severity ra = medium) \<and> ra_clause_id ra = rp_clause_id p))
   \<and> (clauses \<noteq> [] \<and> assessments \<noteq> []
        \<and> (\<forall>c \<in> set clauses. \<forall>e.
              logger_call env LogError
                (''Failed to generate redline for clause '' @ clause_id c @ '': '' @ str e)
                [''clause_id''] = None)
      \<longrightarrow> \<not> isl (generate_redlines env clauses assessments sid))
   \<and> (get_session (memory_bank orch) sid = Inr (Some s)
        \<and> (extracted_clauses s = [] \<or> risk_assessments s = [])
      \<longrightarrow> run_redline_generation env orch sid
            = (Inr \<lparr>rl_redline_proposals = [], rl_proposal_count = 0,
                     rl_high_risk_redlines = None, rl_medium_risk_redlines = None,
                     rl_status = None,
                     rl_warning = Some ''Insufficient data for redline generation'',
                     rl_error = None\<rparr>, orch))"
proof -
  let ?risky = "filter (\<lambda>r. severity r = high \<or> severity r = medium) assessments"
  let ?m = "dict_of clause_id clauses"
  let ?f = "\<lambda>ra. case ?m (ra_clause_id ra) of
                    None \<Rightarrow> None
                  | Some c \<Rightarrow> (case generate_redline_for_clause env c ra of
                                Inl e \<Rightarrow> None | Inr p \<Rightarrow> Some p)"
  have a: "\<forall>p \<in> set (List.map_filter ?f ?risky).
          \<exists>ra \<in> set assessments.
            (severity ra = high \<or> severity ra = medium) \<and> ra_clause_id ra = rp_clause_id p"
  proof
    fix p assume "p \<in> set (List.map_filter ?f ?risky)"
    from map_filter_source[OF this] obtain ra where ra: "ra \<in> set ?risky" "?f ra = Some p"
      by blast
    from ra(2) obtain c where c: "?m (ra_clause_id ra) = Some c"
      "generate_redline_for_clause env c ra = Inr p"
      by (auto split: option.splits sum.splits)
    have "rp_clause_id p = ra_clause_id ra"
      using generated_clause_id[OF c(2)] dict_of_lookup[OF c(1)] by simp
    then show "\<exists>ra \<in> set assessments.
            (severity ra = high \<or> severity ra = medium) \<and> ra_clause_id ra = rp_clause_id p"
      using ra(1) by auto
  qed
  have b: "length (List.map_filter ?f ?risky) \<le> length ?risky"
    by (rule map_filter_length_le)
  have c: "\<not> isl (generate_redlines env clauses assessments sid)"
    if "clauses \<noteq> []" "assessments \<noteq> []"
      and q: "\<forall>c \<in> set clauses. \<forall>e.
              logger_call env LogError
                (''Failed to generate redline for clause '' @ clause_id c @ '': '' @ str e)
                [''clause_id''] = None"
  proof -
    have "logger_call env LogError
               (''Failed to generate redline for clause '' @ clause_id c @ '': '' @ str e)
               [''clause_id''] = None" if "c \<in> ran ?m" for c e
    proof -
      from that obtain k where "?m k = Some c" by (auto simp: ran_def)
      from dict_of_lookup[OF this] q show ?thesis by blast
    qed
    from redline_loop_returns[of ?m env ?risky "[]", OF this]
    show ?thesis
      using that(1,2)
      by (auto simp: generate_redlines_def generate_redlines_body_def handle_errors_def Let_def
          split: sum.splits)
  qed
  have d: "run_redline_generation env orch sid
            = (Inr \<lparr>rl_redline_proposals = [], rl_proposal_count = 0,
                     rl_high_risk_redlines = None, rl_medium_risk_redlines = None,
                     rl_status = None,
                     rl_warning = Some ''Insufficient data for redline generation'',
                     rl_error = None\<rparr>, orch)"
    if "get_session (memory_bank orch) sid = Inr (Some s)"
      and "extracted_clauses s = [] \<or> risk_assessments s = []"
    using that
    by (auto simp: run_redline_generation_def redline_generation_try_def getters
        session_or_raise_def)
  show ?thesis
    using a b c d generate_redlines_out[of env clauses assessments sid out]
    by (simp (no_asm_simp))
qed

theorem redline_proposals_for_risky_findings_witness:
  "map severity [r1, r2, r3] = [high, medium, low]
   \<and> [c1, c2, c3] \<noteq> [] \<and> [r1, r2, r3] \<noteq> []
   \<and> map_sum exn_class (map rp_clause_id \<circ> out_redline_proposals)
        (generate_redlines env0 [c1, c2, c3] [r1, r2, r3] ''s1'') = Inr [''c1'', ''c2'']
   \<and> map_sum exn_class out_proposal_count
        (generate_redlines env0 [c1, c2, c3] [r1, r2, r3] ''s1'') = Inr 2"
proof -
  have sev: "map severity [r1, r2, r3] = [high, medium, low]" by code_simp
  have q: "\<forall>c \<in> set [c1, c2, c3]. \<forall>e.
              logger_call env0 LogError
                (''Failed to generate redline for clause '' @ clause_id c @ '': '' @ str e)
                [''clause_id''] = None"
    by (simp add: env0_def)
  note th = redline_proposals_for_risky_findings[where env=env0 and clauses="[c1, c2, c3]"
        and assessments="[r1, r2, r3]" and sid="''s1''" and orch="orch0 True"
        and s=stored_session]
  have "\<not> isl (generate_redlines env0 [c1, c2, c3] [r1, r2, r3] ''s1'')"
    using th q by blast
  then obtain out where out: "generate_redlines env0 [c1, c2, c3] [r1, r2, r3] ''s1'' = Inr out"
    by (cases "generate_redlines env0 [c1, c2, c3] [r1, r2, r3] ''s1''") auto
  have v: "map rp_clause_id
             (List.map_filter
                (\<lambda>ra. case dict_of clause_id [c1, c2, c3] (ra_clause_id ra) of
                        None \<Rightarrow> None
                      | Some c \<Rightarrow> (case generate_redline_for_clause env0 c ra of
                                    Inl e \<Rightarrow> None | Inr p \<Rightarrow> Some p))
                (filter (\<lambda>r. severity r = high \<or> severity r = medium) [r1, r2, r3]))
           = [''c1'', ''c2'']"
    by code_simp
  have p: "out_redline_proposals out
             = List.map_filter
                (\<lambda>ra. case dict_of clause_id [c1, c2, c3] (ra_clause_id ra) of
                        None \<Rightarrow> None
                      | Some c \<Rightarrow> (case generate_redline_for_clause env0 c ra of
                                    Inl e \<Rightarrow> None | Inr p \<Rightarrow> Some p))
                (filter (\<lambda>r. severity r = high \<or> severity r = medium) [r1, r2, r3])"
    and n: "out_proposal_count out = length (out_redline_proposals out)"
    using th[of out] out by blast+
  have ids: "map rp_clause_id (out_redline_proposals out) = [''c1'', ''c2'']"
    using v p by simp
  then have "length (out_redline_proposals out) = 2"
    by (metis length_map length_Cons list.size(3) numeral_2_eq_2)
  then show ?thesis using sev out ids n by simp
qed

text \<open>
  A clause id that holds a replacement field makes the debug log call of the generation
  raise, then the error log call of the handler, and with it the whole method.
\<close>

lemma brace_in_clause_id_fails_the_call:
  "generate_redlines env_braces [c_brace] [r_brace] ''s1''
     = Inl (Exn RedlineGenerationError (''Error in generate_redlines: '' @
              ''Replacement index 2 out of range for positional args tuple''))"
  by code_simp

subsection \<open>Abort without degradation\<close>

lemma find_snoc:
  "find P (xs @ [x]) = (case find P xs of None \<Rightarrow> (if P x then Some x else None) | Some y \<Rightarrow> Some y)"
  by (induction xs) auto

lemma create_session_row:
  assumes "create_session db sid uid fname meta text = Inr (s, db')"
  shows "find_row db' sid = Some s \<and> extracted_clauses s = [] \<and> later_slots_absent s"
  using assms
  by (auto simp: create_session_def Let_def find_row_def log_event_def find_snoc
      later_slots_absent_def split: if_splits)

lemma ingestion_creates:
  assumes "run_ingestion env orch inp sid_opt = (Inr ingestion, o1)"
  shows "\<exists>s. find_row (memory_bank o1) (run_id env sid_opt) = Some s
              \<and> extracted_clauses s = [] \<and> later_slots_absent s"
  using assms
  by (auto simp: run_ingestion_def ingestion_try_def resume_ingestion_None create_new_session_def
      run_id_def Let_def
      split: sum.splits option.splits if_splits prod.splits dest!: create_session_row)

lemma write_keeps_row:
  assumes "find_row db sid = Some s" and "session_id s' = sid"
  shows "find_row (set_state (update_session db s') sid k v) sid = Some s'"
  using assms by (simp add: find_row_update_session)

lemma extraction_keeps_later_slots:
  assumes "find_row (memory_bank orch) sid = Some s" and "later_slots_absent s"
  shows "\<exists>s'. find_row (memory_bank (snd (run_extraction env orch sid))) sid = Some s'
            \<and> later_slots_absent s'"
proof -
  note w = extraction_try_writes[OF surjective_pairing, where env=env and orch=orch and sid=sid]
  show ?thesis
    using w
  proof (elim disjE exE conjE)
    assume "memory_bank (snd (extraction_try env orch sid)) = memory_bank orch"
    then show ?thesis using assms by (simp add: run_extraction_memory)
  next
    fix t found
    assume t: "get_session (memory_bank orch) sid = Inr (Some t)"
      and eq: "memory_bank (snd (extraction_try env orch sid)) =
               set_state (update_session (memory_bank orch) (t\<lparr>extracted_clauses := found\<rparr>))
                 sid ''extracted_clauses'' (ClausesValue found)"
    have ts: "t = s" using t assms(1) by (simp add: get_session_row)
    have "session_id (t\<lparr>extracted_clauses := found\<rparr>) = sid" using get_session_id[OF t] by simp
    from write_keeps_row[OF assms(1) this]
    show ?thesis using eq assms(2) ts by (simp add: run_extraction_memory later_slots_absent_def)
  qed
qed

lemma risk_scoring_try_fails:
  assumes "risk_scoring_try env orch sid = (Inl err, o3)"
    and "find_row (memory_bank orch) sid = Some s" and "later_slots_absent s"
  shows "o3 = invoke orch AssessRisksCall"
proof -
  have g: "get_session (memory_bank orch) sid = Inr (Some s)"
    using assms(2,3) by (intro get_session_fresh) (simp_all add: later_slots_absent_def)
  show ?thesis
    using assms(1,3) g
    by (auto simp: risk_scoring_try_def getters stores session_or_raise_def Let_def
        later_slots_absent_def
        split: sum.splits option.splits if_splits)
qed

text \<open>
  Claim C4 as stated fails in what the caller gets: \<open>process_contract\<close> returns no
  result, so no status; it raises.
\<close>

theorem abort_raises_without_status:
  "\<not> enable_graceful_degradation (orch0 False)
   \<and> returned (process_contract env_scoring_fails (orch0 False) f0 ''u'' (Some ''s1'')) = None
   \<and> raised (process_contract env_scoring_fails (orch0 False) f0 ''u'' (Some ''s1''))
       = Some (Exn ContractCopilotError ''Contract processing failed: Risk scoring failed: boom'')"
  by code_simp

text \<open>
  Claim C4, as amended. Graceful degradation is disabled, the ingestion and the
  extraction stage return, and the \<^verbatim>\<open>try\<close> block of the risk-scoring stage raises.
  Then \<open>process_contract\<close> returns no result; the \<^verbatim>\<open>sessions\<close> table is what it was
  before the risk-scoring stage, so no slot was written for the failed stage; in the
  row of the run the risk assessments, the redline proposals, the negotiation summary
  and the audit bundle are all absent; the only executor invoked after the extraction
  is the risk scorer; and the one trace added is the failed trace of the risk-scoring
  stage. When the error log calls of the stage handler and of the entry point return,
  what is raised is a \<^verbatim>\<open>ContractCopilotError\<close> that carries the message of the
  failure, and the status \<open>failed\<close> is recorded for the run in the \<^verbatim>\<open>state\<close> table
  (under the key \<open>processing_status\<close>, when the session id is not the empty string).
\<close>

theorem no_degradation_abort:
  assumes nd: "\<not> enable_graceful_degradation orch"
    and ing: "\<not> isl (fst (run_ingestion env (orch\<lparr>agent_traces := []\<rparr>) inp sid_opt))"
    and ext: "\<not> isl (fst (run_extraction env (after_ingestion env orch inp sid_opt)
                             (run_id env sid_opt)))"
    and rsk: "fst (risk_scoring_try env (after_extraction env orch inp sid_opt)
                     (run_id env sid_opt)) = Inl err"
  shows "returned (process_contract env orch inp uid sid_opt) = None
       \<and> sessions (memory_bank (snd (process_contract env orch inp uid sid_opt)))
           = sessions (memory_bank (after_extraction env orch inp sid_opt))
       \<and> map_option later_slots_absent
            (find_row (memory_bank (snd (process_contract env orch inp uid sid_opt)))
               (run_id env sid_opt)) = Some True
       \<and> invocations (snd (process_contract env orch inp uid sid_opt))
           = invocations (after_extraction env orch inp sid_opt) @ [AssessRisksCall]
       \<and> agent_traces (snd (process_contract env orch inp uid sid_opt))
           = agent_traces (after_extraction env orch inp sid_opt) @
             [\<lparr>agent_name = ''RiskScoringAgent'', success = False,
               error_message = Some (str err)\<rparr>]
       \<and> (logger_call env LogError (''RiskScoringAgent failed: '' @ str err) [''session_id'']
            = None
          \<and> logger_call env LogError
              (''Contract processing failed: '' @ ''Risk scoring failed: '' @ str err)
              [''session_id''] = None
          \<longrightarrow> raised (process_contract env orch inp uid sid_opt)
                = Some (Exn ContractCopilotError
                    (''Contract processing failed: '' @ ''Risk scoring failed: '' @ str err))
              \<and> (run_id env sid_opt \<noteq> [] \<longrightarrow>
                   get_custom_state (memory_bank (snd (process_contract env orch inp uid sid_opt)))
                     (run_id env sid_opt) ''processing_status'' = Some (StringValue ''failed'')))"
proof -
  let ?sid = "run_id env sid_opt"
  let ?o0 = "orch\<lparr>agent_traces := []\<rparr>"
  let ?o1 = "after_ingestion env orch inp sid_opt"
  let ?o2 = "after_extraction env orch inp sid_opt"
  let ?P = "process_contract env orch inp uid sid_opt"
  obtain ingestion where i: "run_ingestion env ?o0 inp sid_opt = (Inr ingestion, ?o1)"
    using ing by (cases "run_ingestion env ?o0 inp sid_opt"; cases "fst (run_ingestion env ?o0 inp sid_opt)")
      (auto simp: after_ingestion_def)
  from ingestion_creates[OF i] obtain s where
    s: "find_row (memory_bank ?o1) ?sid = Some s" "later_slots_absent s"
    by blast
  have sid: "(case sid_opt of None \<Rightarrow> ir_session_id ingestion | Some given \<Rightarrow> given) = ?sid"
    using ingestion_session_id[OF i] by (simp add: run_id_def split: option.splits)
  obtain extraction where e: "run_extraction env ?o1 ?sid = (Inr extraction, ?o2)"
    using ext by (cases "run_extraction env ?o1 ?sid"; cases "fst (run_extraction env ?o1 ?sid)")
      (auto simp: after_extraction_def)
  from extraction_keeps_later_slots[OF s, of env] obtain s' where
    s': "find_row (memory_bank ?o2) ?sid = Some s'" "later_slots_absent s'"
    by (auto simp: after_extraction_def)
  obtain o3 where f: "risk_scoring_try env ?o2 ?sid = (Inl err, o3)"
    using rsk by (cases "risk_scoring_try env ?o2 ?sid") auto
  have o3: "o3 = invoke ?o2 AssessRisksCall"
    using risk_scoring_try_fails[OF f s'] .
  have nd1: "\<not> enable_graceful_degradation ?o1"
    using run_ingestion_flag[of env ?o0 inp sid_opt] nd by (simp add: after_ingestion_def)
  have nd2: "\<not> enable_graceful_degradation ?o2"
    using run_extraction_flag[of env ?o1 ?sid] nd1 by (simp add: after_extraction_def)
  let ?o4 = "record_trace o3 ''RiskScoringAgent'' False (Some (str err))"
  define x where "x = (case logger_call env LogError (''RiskScoringAgent failed: '' @ str err)
                               [''session_id''] of
                         None \<Rightarrow> Exn RiskAnalysisError (''Risk scoring failed: '' @ str err)
                       | Some exc \<Rightarrow> exc)"
  have r: "run_risk_scoring env ?o2 ?sid = (Inl x, ?o4)"
    using f nd2 o3
    by (cases "logger_call env LogError (''RiskScoringAgent failed: '' @ str err)
                 [''session_id'']")
       (simp_all add: run_risk_scoring_def Let_def x_def)
  have x: "x = Exn RiskAnalysisError (''Risk scoring failed: '' @ str err)"
    if "logger_call env LogError (''RiskScoringAgent failed: '' @ str err) [''session_id'']
              = None"
    using that by (simp add: x_def)
  have pc: "?P = processing_failed env ?o4 (Some ?sid) [] x"
    using i e r sid by (simp add: process_contract_def Let_def)
  note k = processing_failed_keeps[of env ?o4 "Some ?sid" "[]" x]
  have c1: "returned ?P = None"
    using k by (cases "fst ?P") (auto simp: pc returned_def)
  have c2: "sessions (memory_bank (snd ?P)) = sessions (memory_bank ?o2)"
    using k by (simp add: pc o3)
  have "find_row (memory_bank (snd ?P)) ?sid = find_row (memory_bank ?o2) ?sid"
    using c2 by (simp add: find_row_def)
  then have c3: "map_option later_slots_absent (find_row (memory_bank (snd ?P)) ?sid) = Some True"
    using s' by simp
  have c4: "invocations (snd ?P) = invocations ?o2 @ [AssessRisksCall]"
    using k by (simp add: pc o3 record_trace_def invoke_def)
  have c5: "agent_traces (snd ?P)
           = agent_traces ?o2 @
             [\<lparr>agent_name = ''RiskScoringAgent'', success = False,
               error_message = Some (str err)\<rparr>]"
    using k by (simp add: pc o3 record_trace_def invoke_def)
  have c6: "raised ?P
                = Some (Exn ContractCopilotError
                    (''Contract processing failed: '' @ ''Risk scoring failed: '' @ str err))
              \<and> (?sid \<noteq> [] \<longrightarrow>
                   get_custom_state (memory_bank (snd ?P)) ?sid ''processing_status''
                     = Some (StringValue ''failed''))"
    if "logger_call env LogError (''RiskScoringAgent failed: '' @ str err) [''session_id'']
            = None"
      and "logger_call env LogError
              (''Contract processing failed: '' @ ''Risk scoring failed: '' @ str err)
              [''session_id''] = None"
    using x[OF that(1)] that(2)
    by (simp add: pc raised_def processing_failed_def save_partial_results_def
        set_custom_state_def set_state_def get_custom_state_def get_state_def)
  show ?thesis using c1 c2 c3 c4 c5 c6 by blast
qed

theorem no_degradation_abort_witness:
  "\<not> enable_graceful_degradation (orch0 False)
   \<and> \<not> isl (fst (run_ingestion env_scoring_fails (orch0 False\<lparr>agent_traces := []\<rparr>) f0
                   (Some ''s1'')))
   \<and> \<not> isl (fst (run_extraction env_scoring_fails
                   (after_ingestion env_scoring_fails (orch0 False) f0 (Some ''s1''))
                   (run_id env_scoring_fails (Some ''s1''))))
   \<and> fst (risk_scoring_try env_scoring_fails
             (after_extraction env_scoring_fails (orch0 False) f0 (Some ''s1''))
             (run_id env_scoring_fails (Some ''s1''))) = Inl boom
   \<and> returned (process_contract env_scoring_fails (orch0 False) f0 ''u'' (Some ''s1'')) = None
   \<and> map_option later_slots_absent
        (find_row
           (memory_bank (snd (process_contract env_scoring_fails (orch0 False) f0 ''u''
              (Some ''s1'')))) ''s1'') = Some True
   \<and> get_custom_state
        (memory_bank (snd (process_contract env_scoring_fails (orch0 False) f0 ''u''
           (Some ''s1'')))) ''s1'' ''processing_status'' = Some (StringValue ''failed'')"
proof -
  have h1: "\<not> enable_graceful_degradation (orch0 False)" by code_simp
  have h2: "\<not> isl (fst (run_ingestion env_scoring_fails (orch0 False\<lparr>agent_traces := []\<rparr>) f0
                   (Some ''s1'')))" by code_simp
  have h3: "\<not> isl (fst (run_extraction env_scoring_fails
                   (after_ingestion env_scoring_fails (orch0 False) f0 (Some ''s1''))
                   (run_id env_scoring_fails (Some ''s1''))))" by code_simp
  have h4: "fst (risk_scoring_try env_scoring_fails
                 (after_extraction env_scoring_fails (orch0 False) f0 (Some ''s1''))
                 (run_id env_scoring_fails (Some ''s1''))) = Inl boom" by code_simp
  have id: "run_id env_scoring_fails (Some ''s1'') = ''s1''" by code_simp
  have l: "logger_call env_scoring_fails = (\<lambda>level message keys. None)"
    by (simp add: env_scoring_fails_def env0_def)
  show ?thesis
    using h1 h2 h3 h4 no_degradation_abort[OF h1 h2 h3 h4, of "''u''"]
    by (simp add: id l)
qed

subsection \<open>The trace list of a call\<close>










subsection \<open>Stored runs and the later stages\<close>

text \<open>
  Whatever a stored session holds, the ingestion stage called with its id invokes the
  ingestion executor, records a failed trace, raises and leaves the store as it was. The
  stages 1 to 5, called on their own, do skip on presence: with the slot and the slots it
  reads populated, and the log call that announces the skip returning, the stage leaves
  the orchestrator unchanged (no executor call, no trace, no write).
\<close>

lemma stored_run_reruns_ingestion:
  assumes "find_row (memory_bank orch) sid \<noteq> None"
  shows "isl (fst (run_ingestion env orch inp (Some sid)))
       \<and> invocations (snd (run_ingestion env orch inp (Some sid)))
           = invocations orch @ [ProcessFileCall]
       \<and> map success (agent_traces (snd (run_ingestion env orch inp (Some sid))))
           = map success (agent_traces orch) @ [False]
       \<and> memory_bank (snd (run_ingestion env orch inp (Some sid))) = memory_bank orch"
  using assms
  by (auto simp: run_ingestion_def ingestion_try_def resume_ingestion_None create_new_session_def
      create_session_def Let_def record_trace_def invoke_def
      split: sum.splits option.splits prod.splits)

lemma later_stages_skip_on_presence:
  assumes "get_session (memory_bank orch) sid = Inr (Some s)"
    and "\<And>message. logger_call env LogInfo message [''session_id''] = None"
  shows "(extracted_clauses s \<noteq> [] \<longrightarrow> snd (run_extraction env orch sid) = orch)
       \<and> (extracted_clauses s \<noteq> [] \<and> risk_assessments s \<noteq> [] \<longrightarrow>
            snd (run_risk_scoring env orch sid) = orch)
       \<and> (extracted_clauses s \<noteq> [] \<and> risk_assessments s \<noteq> [] \<and> redline_proposals s \<noteq> [] \<longrightarrow>
            snd (run_redline_generation env orch sid) = orch)
       \<and> (risk_assessments s \<noteq> [] \<and> negotiation_summary s \<noteq> None \<longrightarrow>
            snd (run_summary_generation env orch sid) = orch)
       \<and> (audit_bundle s \<noteq> None \<longrightarrow> snd (run_audit_compilation env orch sid) = orch)"
  using assms
  by (auto simp: run_extraction_def extraction_try_def run_risk_scoring_def risk_scoring_try_def
      run_redline_generation_def redline_generation_try_def run_summary_generation_def
      summary_generation_try_def run_audit_compilation_def audit_compilation_try_def getters
      session_or_raise_def)

end
